theory Spec2Isabelle
  imports Main "HOL-Library.Sublist" "HOL-Library.AList"
begin

section \<open>Paths, bytes and directory trees\<close>

text \<open>
  Paths and file contents are strings. A directory tree is the list of the regular files
  below a directory, keyed by the path relative to that directory, in the order a
  directory walk meets them; directories themselves are implicit: a path is a directory
  of a tree when the tree has a file below it.
\<close>

type_synonym path = string
type_synonym bytes = string

record file_node =
  content :: bytes
  mtimeMs :: int

type_synonym tree = "(path \<times> file_node) list"

text \<open>\<open>under dir p\<close>: the path \<open>p\<close> lies below the directory \<open>dir\<close>.\<close>

definition under :: "path \<Rightarrow> path \<Rightarrow> bool" where
  "under dir p = prefix (dir @ ''/'') p"

text \<open>A path is a directory of a tree; a regular file of the tree stands where a
  directory of the path would have to be.\<close>

definition is_dir_in :: "tree \<Rightarrow> path \<Rightarrow> bool" where
  "is_dir_in t rel = list_ex (\<lambda>(q, g). under rel q) t"

definition file_in_the_way :: "tree \<Rightarrow> path \<Rightarrow> bool" where
  "file_in_the_way t rel = list_ex (\<lambda>(q, g). under q rel) t"

text \<open>\<open>String.prototype.split('/')\<close>.\<close>

fun split_slash :: "string \<Rightarrow> string list" where
  "split_slash [] = [[]]"
| "split_slash (c # cs) =
     (if c = CHR ''/'' then [] # split_slash cs
      else (case split_slash cs of [] \<Rightarrow> [[c]] | s # ss \<Rightarrow> (c # s) # ss))"

definition segments :: "path \<Rightarrow> string list" where
  "segments p = filter (\<lambda>s. s \<noteq> []) (split_slash p)"

text \<open>\<open>path.basename\<close> (POSIX): the last non-empty component.\<close>

definition basename :: "path \<Rightarrow> string" where
  "basename p = (case rev (segments p) of [] \<Rightarrow> [] | s # _ \<Rightarrow> s)"

text \<open>
  \<open>path.join(a, b)\<close> for a normalised directory \<open>a\<close> and a relative name \<open>b\<close>, and
  \<open>path.resolve(root, rel)\<close> / \<open>path.relative(root, p)\<close> for a normalised absolute root.
\<close>

definition path_join :: "path \<Rightarrow> path \<Rightarrow> path" where
  "path_join a b = a @ ''/'' @ b"

definition is_absolute :: "path \<Rightarrow> bool" where
  "is_absolute p = (case p of [] \<Rightarrow> False | c # _ \<Rightarrow> c = CHR ''/'')"

definition resolve_in :: "path \<Rightarrow> path \<Rightarrow> path" where
  "resolve_in root f = (if is_absolute f then f else path_join root f)"

definition relative_to :: "path \<Rightarrow> path \<Rightarrow> path" where
  "relative_to root p =
     (if prefix (root @ ''/'') p then drop (length root + 1) p else p)"

text \<open>\<open>path.extname\<close> of a file name (no slash in it).\<close>

fun last_dot :: "string \<Rightarrow> nat option" where
  "last_dot [] = None"
| "last_dot (c # cs) =
     (case last_dot cs of
        Some i \<Rightarrow> Some (Suc i)
      | None \<Rightarrow> if c = CHR ''.'' then Some 0 else None)"

definition extname :: "string \<Rightarrow> string" where
  "extname name =
     (case last_dot name of
        None \<Rightarrow> []
      | Some i \<Rightarrow> if i = 0 \<or> name = ''..'' then [] else drop i name)"

section \<open>Project snapshot store: data model (projectSnapshotManager.ts)\<close>

datatype snapshot_type = incremental | full

text \<open>
  \<open>ProjectSnapshot\<close>. The name, tags, analysis summary, branch and commit of the source
  record are display data that no decision reads; they are left out.
\<close>

record ProjectSnapshot =
  ps_id :: string
  timestamp :: int
  saveNumber :: int
  ps_type :: snapshot_type
  changedFiles :: "path list"
  ps_prompt :: string
  totalFiles :: nat
  actualFileCount :: "nat option"

record FileBaseline =
  bl_filePath :: path
  bl_lastModified :: int
  bl_fileSize :: nat
  bl_contentHash :: string

text \<open>
  \<open>ProjectSnapshotData\<close>; \<open>fileBaselines\<close> is an object keyed by relative path, kept as
  an association list in insertion order; \<open>settings\<close> is flattened into its two fields.
\<close>

record ProjectSnapshotData =
  projectRoot :: path
  currentSaveNumber :: int
  lastFullSaveNumber :: int
  fullSaveInterval :: int
  snapshots :: "ProjectSnapshot list"
  fileBaselines :: "(path \<times> FileBaseline) list"
  lastScanTime :: int
  maxSnapshots :: nat
  autoCleanup :: bool

text \<open>The state the constructor builds.\<close>

definition initial_data :: ProjectSnapshotData where
  "initial_data =
     \<lparr> projectRoot = [], currentSaveNumber = 0, lastFullSaveNumber = 0,
       fullSaveInterval = 10, snapshots = [], fileBaselines = [], lastScanTime = 0,
       maxSnapshots = 100, autoCleanup = True \<rparr>"

text \<open>
  What one operation reads from outside the manager: the clock, the fresh identifier,
  the output of \<open>git status --porcelain\<close> (\<open>None\<close> when the command fails), the project
  tree, the hash function, the serialiser, and whether the external tools and the disk
  answer: \<open>rsync_ok\<close> says that the \<open>rsync\<close> command exits with 0 (when it does
  not, it has gone through \<open>rsync_progress\<close> entries of the source before it stopped), the three
  \<open>writable\<close> flags that writes below the snapshot directories, of the index document
  and below the project root succeed. \<open>project\<close> holds every regular file below the
  project root.
\<close>

record env =
  now :: int
  fresh_id :: string
  git_status :: "string list option"
  project :: tree
  sha256 :: "bytes \<Rightarrow> string"
  stringify :: "ProjectSnapshot \<Rightarrow> bytes"
  rsync_ok :: bool
  rsync_progress :: nat
  store_writable :: bool
  index_writable :: bool
  project_writable :: bool

section \<open>Change detector\<close>

text \<open>\<open>getAllProjectFiles\<close>: the walk skips excluded directories and file names.\<close>

definition excludeDirs :: "string list" where
  "excludeDirs = [''.git'', ''node_modules'', ''.CodeRecoder'', ''__pycache__'',
                  ''dist'', ''build'', ''.next'']"

definition excludeExtensions :: "string list" where
  "excludeExtensions = [''.log'', ''.tmp'', ''.cache'', ''.DS_Store'']"

definition walk_keeps :: "path \<Rightarrow> bool" where
  "walk_keeps rel =
     (case rev (segments rel) of
        [] \<Rightarrow> False
      | name # dirs \<Rightarrow>
          (\<forall>d \<in> set dirs. d \<notin> set excludeDirs) \<and>
          extname name \<notin> set excludeExtensions \<and> name \<notin> set excludeExtensions)"

definition getAllProjectFiles :: "env \<Rightarrow> path \<Rightarrow> (path \<times> file_node) list" where
  "getAllProjectFiles e root =
     map (\<lambda>(rel, f). (path_join root rel, f)) (filter (\<lambda>(rel, f). walk_keeps rel) (project e))"

text \<open>\<open>updateFileBaseline\<close> (the unused \<open>lineCount\<close> is left out).\<close>

definition updateFileBaseline ::
  "env \<Rightarrow> path \<Rightarrow> file_node \<Rightarrow> path \<Rightarrow> ProjectSnapshotData \<Rightarrow> ProjectSnapshotData" where
  "updateFileBaseline e filePath f root d =
     (let relativePath = relative_to root filePath in
      d\<lparr>fileBaselines :=
          AList.update relativePath
            \<lparr> bl_filePath = relativePath, bl_lastModified = mtimeMs f,
              bl_fileSize = length (content f), bl_contentHash = sha256 e (content f) \<rparr>
            (fileBaselines d)\<rparr>)"

text \<open>\<open>getGitModifiedFiles\<close>.\<close>

definition is_blank :: "string \<Rightarrow> bool" where
  "is_blank l = (\<forall>c \<in> set l. c \<in> {CHR '' '', CHR 0x09, CHR 0x0A, CHR 0x0D})"

definition getGitModifiedFiles :: "env \<Rightarrow> path \<Rightarrow> path list" where
  "getGitModifiedFiles e root =
     (case git_status e of
        None \<Rightarrow> []
      | Some stdout_lines \<Rightarrow>
          map (resolve_in root)
            (filter (\<lambda>file. \<not> prefix ''.CodeRecoder'' file)
              (map (drop 3) (filter (\<lambda>l. \<not> is_blank l) stdout_lines))))"

text \<open>\<open>getFilesByHashComparison\<close>: one step of the loop over the baseline keys.\<close>

definition hash_step ::
  "env \<Rightarrow> path \<Rightarrow> path \<Rightarrow> path list \<times> ProjectSnapshotData \<Rightarrow> path list \<times> ProjectSnapshotData" where
  "hash_step e root relativePath st =
     (case st of (modifiedFiles, d) \<Rightarrow>
       (case (map_of (project e) relativePath, map_of (fileBaselines d) relativePath) of
          (Some f, Some baseline) \<Rightarrow>
            (let currentHash = sha256 e (content f) in
             if currentHash \<noteq> bl_contentHash baseline
             then (modifiedFiles @ [resolve_in root relativePath],
                   d\<lparr>fileBaselines :=
                       AList.update relativePath
                         (baseline\<lparr>bl_contentHash := currentHash, bl_lastModified := mtimeMs f\<rparr>)
                         (fileBaselines d)\<rparr>)
             else (modifiedFiles, d))
        | _ \<Rightarrow> (modifiedFiles, d)))"

definition getFilesByHashComparison ::
  "env \<Rightarrow> path \<Rightarrow> ProjectSnapshotData \<Rightarrow> path list \<times> ProjectSnapshotData" where
  "getFilesByHashComparison e root d =
     fold (hash_step e root) (map fst (fileBaselines d)) ([], d)"

text \<open>\<open>getFilesByStatsComparison\<close>: one step of the loop over the walked files.\<close>

definition stats_step ::
  "env \<Rightarrow> path \<Rightarrow> path \<times> file_node \<Rightarrow> path list \<times> ProjectSnapshotData
     \<Rightarrow> path list \<times> ProjectSnapshotData" where
  "stats_step e root entry st =
     (case (entry, st) of ((filePath, f), (modifiedFiles, d)) \<Rightarrow>
       (case map_of (fileBaselines d) (relative_to root filePath) of
          None \<Rightarrow> (modifiedFiles @ [filePath], updateFileBaseline e filePath f root d)
        | Some baseline \<Rightarrow>
            if length (content f) \<noteq> bl_fileSize baseline \<or> mtimeMs f \<noteq> bl_lastModified baseline
            then (modifiedFiles @ [filePath], updateFileBaseline e filePath f root d)
            else (modifiedFiles, d)))"

definition getFilesByStatsComparison ::
  "env \<Rightarrow> path \<Rightarrow> ProjectSnapshotData \<Rightarrow> path list \<times> ProjectSnapshotData" where
  "getFilesByStatsComparison e root d =
     fold (stats_step e root) (getAllProjectFiles e root) ([], d)"

text \<open>\<open>getRecentlyModifiedFiles\<close>; the default range is one hour.\<close>

definition hour_ms :: int where
  "hour_ms = 60 * 60 * 1000"

definition getRecentlyModifiedFiles :: "env \<Rightarrow> path \<Rightarrow> int \<Rightarrow> path list" where
  "getRecentlyModifiedFiles e root timeRangeMs =
     map fst (filter (\<lambda>(filePath, f). mtimeMs f > now e - timeRangeMs)
                (getAllProjectFiles e root))"

text \<open>\<open>getModifiedFiles\<close>: the prioritised fallback.\<close>

definition getModifiedFiles ::
  "env \<Rightarrow> path \<Rightarrow> ProjectSnapshotData \<Rightarrow> path list \<times> ProjectSnapshotData" where
  "getModifiedFiles e root d =
     (let gitFiles = getGitModifiedFiles e root in
      if length gitFiles > 0 then (gitFiles, d\<lparr>lastScanTime := now e\<rparr>)
      else
        (case getFilesByHashComparison e root d of (hashFiles, d1) \<Rightarrow>
          if length hashFiles > 0 then (hashFiles, d1\<lparr>lastScanTime := now e\<rparr>)
          else
            (case getFilesByStatsComparison e root d1 of (statsFiles, d2) \<Rightarrow>
              if length statsFiles > 0 then (statsFiles, d2\<lparr>lastScanTime := now e\<rparr>)
              else
                (let recentFiles = getRecentlyModifiedFiles e root hour_ms;
                     d3 = d2\<lparr>lastScanTime := now e\<rparr>
                 in if length recentFiles > 0 then (recentFiles, d3) else ([], d3)))))"


text \<open>\<open>findNewFiles\<close>: walked files without a baseline; each gets one.\<close>

definition new_file_step ::
  "env \<Rightarrow> path \<Rightarrow> path \<times> file_node \<Rightarrow> path list \<times> ProjectSnapshotData
     \<Rightarrow> path list \<times> ProjectSnapshotData" where
  "new_file_step e root entry st =
     (case (entry, st) of ((filePath, f), (newFiles, d)) \<Rightarrow>
       (case map_of (fileBaselines d) (relative_to root filePath) of
          None \<Rightarrow> (newFiles @ [filePath], updateFileBaseline e filePath f root d)
        | Some baseline \<Rightarrow> (newFiles, d)))"

definition findNewFiles ::
  "env \<Rightarrow> path \<Rightarrow> ProjectSnapshotData \<Rightarrow> path list \<times> ProjectSnapshotData" where
  "findNewFiles e root d = fold (new_file_step e root) (getAllProjectFiles e root) ([], d)"

text \<open>\<open>toLowerCase\<close> on ASCII letters.\<close>

definition lower_char :: "char \<Rightarrow> char" where
  "lower_char c =
     (case map_of (zip ''ABCDEFGHIJKLMNOPQRSTUVWXYZ'' ''abcdefghijklmnopqrstuvwxyz'') c of
        None \<Rightarrow> c
      | Some l \<Rightarrow> l)"

definition toLowerCase :: "string \<Rightarrow> string" where
  "toLowerCase s = map lower_char s"

text \<open>\<open>[...new Set(xs)]\<close>: the first occurrence of each element stays.\<close>

definition dedupe :: "'a list \<Rightarrow> 'a list" where
  "dedupe xs = rev (remdups (rev xs))"

text \<open>\<open>guessFilesFromPrompt\<close>.\<close>

definition guess_keywords :: "string list" where
  "guess_keywords = [''test'', ''config'', ''readme'', ''package'', ''index'', ''main'', ''app'']"

definition guess_extensions :: "string list" where
  "guess_extensions = [''.js'', ''.ts'', ''.py'', ''.java'', ''.cpp'', ''.md'', ''.json'']"

definition guessFilesFromPrompt :: "env \<Rightarrow> path \<Rightarrow> string \<Rightarrow> path list" where
  "guessFilesFromPrompt e root prompt =
     (let lowerPrompt = toLowerCase prompt;
          allFiles = map fst (getAllProjectFiles e root);
          byKeyword =
            concat (map (\<lambda>keyword.
                      if sublist keyword lowerPrompt
                      then take 3 (filter (\<lambda>file. sublist keyword (toLowerCase (basename file))) allFiles)
                      else [])
                    guess_keywords);
          byExtension =
            concat (map (\<lambda>ext.
                      if sublist (drop 1 ext) lowerPrompt
                      then take 2 (filter (\<lambda>file. suffix ext file) allFiles)
                      else [])
                    guess_extensions)
      in dedupe (byKeyword @ byExtension))"

text \<open>\<open>findMainProjectFiles\<close>.\<close>

definition mainPatterns :: "string list" where
  "mainPatterns = [''package.json'', ''README.md'', ''index.js'', ''index.ts'', ''main.py'',
                   ''app.js'', ''app.ts'', ''server.js'', ''server.ts'']"

definition findMainProjectFiles :: "env \<Rightarrow> path \<Rightarrow> path list" where
  "findMainProjectFiles e root =
     (let allFiles = getAllProjectFiles e root;
          mainFiles =
            concat (map (\<lambda>pattern.
                      (case find (\<lambda>(file, f). toLowerCase (basename file) = toLowerCase pattern)
                              allFiles of
                         None \<Rightarrow> []
                       | Some (file, f) \<Rightarrow> [file]))
                    mainPatterns)
      in if mainFiles = []
         then map fst (take 3 (sort_key (\<lambda>(file, f). - mtimeMs f) allFiles))
         else mainFiles)"

text \<open>The relative form both analyses return.\<close>

definition relativise :: "path \<Rightarrow> path \<Rightarrow> path" where
  "relativise root f = (if is_absolute f then relative_to root f else f)"

text \<open>\<open>forceFileAnalysis\<close>: the \<open>modifiedFiles\<close> of its result.\<close>

definition forceFileAnalysis ::
  "env \<Rightarrow> path \<Rightarrow> string \<Rightarrow> ProjectSnapshotData \<Rightarrow> path list \<times> ProjectSnapshotData" where
  "forceFileAnalysis e root prompt d =
     (let recentFiles = getRecentlyModifiedFiles e root (2 * hour_ms);
          guessedFiles = guessFilesFromPrompt e root prompt;
          m1 = fold (\<lambda>file acc. if file \<in> set acc then acc else acc @ [file])
                 guessedFiles recentFiles
      in (case (if m1 = [] then findNewFiles e root d else (m1, d)) of (m2, d1) \<Rightarrow>
           (let m3 = (if m2 = [] then take 5 (findMainProjectFiles e root) else m2)
            in (map (relativise root) m3, d1))))"

section \<open>The store on disk and the manager\<close>

text \<open>
  The directory \<open>snapshots/projects\<close>: one tree per snapshot identifier, and the index
  document as it was last written (\<open>None\<close> before the first write). It is kept apart
  from the project tree: the store lives below \<open>.CodeRecoder\<close>, which every scan and
  every copy of the project excludes.
\<close>

record store_disk =
  snapshot_dirs :: "(string \<times> tree) list"
  index_doc :: "ProjectSnapshotData option"

record manager =
  cacheDirectory :: path
  data :: ProjectSnapshotData

text \<open>\<open>saveData\<close>: \<open>None\<close> is the exception of a failed write.\<close>

definition saveData :: "env \<Rightarrow> ProjectSnapshotData \<Rightarrow> store_disk \<Rightarrow> store_disk option" where
  "saveData e d disk = (if index_writable e then Some (disk\<lparr>index_doc := Some d\<rparr>) else None)"

text \<open>\<open>updateAllFileBaselines\<close>, which ends with \<open>saveData\<close>.\<close>

definition updateAllFileBaselines ::
  "env \<Rightarrow> path \<Rightarrow> ProjectSnapshotData \<Rightarrow> store_disk
     \<Rightarrow> ProjectSnapshotData \<times> store_disk option" where
  "updateAllFileBaselines e root d disk =
     (let d1 = fold (\<lambda>(filePath, f). updateFileBaseline e filePath f root)
                 (getAllProjectFiles e root) d
      in (d1, saveData e d1 disk))"

text \<open>
  \<open>analyzeChangesWithSerena\<close>: the \<open>modifiedFiles\<close> of its result. An exception (only
  the write of the index can raise one) falls back to \<open>analyzeChangesWithGit\<close>, which
  returns the detector's paths as they are.
\<close>

definition analyzeChangesWithSerena ::
  "env \<Rightarrow> path \<Rightarrow> ProjectSnapshotData \<Rightarrow> store_disk
     \<Rightarrow> path list \<times> ProjectSnapshotData \<times> store_disk" where
  "analyzeChangesWithSerena e root d disk =
     (if length (fileBaselines d) = 0
      then (case updateAllFileBaselines e root d disk of
              (d1, None) \<Rightarrow>
                (case getModifiedFiles e root d1 of (files, d2) \<Rightarrow> (files, d2, disk))
            | (d1, Some disk1) \<Rightarrow>
                (case getModifiedFiles e root d1 of (files, d2) \<Rightarrow>
                   (map (relativise root) files, d2, disk1)))
      else (case getModifiedFiles e root d of (files, d2) \<Rightarrow>
              (map (relativise root) files, d2, disk)))"


section \<open>Copier\<close>

text \<open>An \<open>rsync --exclude\<close> pattern without a slash: a glob on one path component.\<close>

fun glob_match :: "string \<Rightarrow> string \<Rightarrow> bool" where
  "glob_match [] s = (s = [])"
| "glob_match (p # ps) s =
     (if p = CHR ''*''
      then glob_match ps s \<or> (case s of [] \<Rightarrow> False | c # cs \<Rightarrow> glob_match (p # ps) cs)
      else (case s of [] \<Rightarrow> False | c # cs \<Rightarrow> c = p \<and> glob_match ps cs))"

text \<open>
  The regular expressions \<open>copyDirectoryRecursive\<close> builds with
  \<open>new RegExp(pattern.replace(/\*/g, '.*'))\<close>: literal characters, the dot (any
  character but a line terminator) and \<open>.*\<close>; \<open>test\<close> searches the name for a match.
\<close>

datatype rx = RChar char | RAny | RAnyStar

definition compile_pattern :: "string \<Rightarrow> rx list" where
  "compile_pattern pattern =
     map (\<lambda>c. if c = CHR ''*'' then RAnyStar else if c = CHR ''.'' then RAny else RChar c) pattern"

definition line_terminator :: "char \<Rightarrow> bool" where
  "line_terminator c = (c = CHR 0x0A \<or> c = CHR 0x0D)"

fun rx_here :: "rx list \<Rightarrow> string \<Rightarrow> bool" where
  "rx_here [] s = True"
| "rx_here (RChar x # r) s = (case s of [] \<Rightarrow> False | c # cs \<Rightarrow> c = x \<and> rx_here r cs)"
| "rx_here (RAny # r) s =
     (case s of [] \<Rightarrow> False | c # cs \<Rightarrow> \<not> line_terminator c \<and> rx_here r cs)"
| "rx_here (RAnyStar # r) s =
     (rx_here r s \<or>
      (case s of [] \<Rightarrow> False | c # cs \<Rightarrow> \<not> line_terminator c \<and> rx_here (RAnyStar # r) cs))"

fun regex_test :: "rx list \<Rightarrow> string \<Rightarrow> bool" where
  "regex_test r [] = rx_here r []"
| "regex_test r (c # cs) = (rx_here r (c # cs) \<or> regex_test r cs)"

definition shouldExclude :: "string list \<Rightarrow> string \<Rightarrow> bool" where
  "shouldExclude excludePatterns name =
     list_ex (\<lambda>pattern.
                if CHR ''*'' \<in> set pattern then regex_test (compile_pattern pattern) name
                else name = pattern)
       excludePatterns"

definition excludePatterns :: "string list" where
  "excludePatterns = [''.git'', ''node_modules'', ''.CodeRecoder'', ''__pycache__'', ''*.pyc'',
                      ''*.log'', ''.DS_Store'', ''dist'', ''build'', ''.vscode'', ''.idea'']"

text \<open>
  \<open>rsync -av\<close> from one directory into another. An entry of the source is left out when
  a component of its path matches an exclude pattern. For every other file the directories
  on its path are made in the destination, and a regular file of the destination that
  stands where such a directory goes is removed to make it. The file is then transferred
  unless the destination already has it with the same size and the same modification time
  in whole seconds; a transferred file keeps its modification time. A file whose path is a
  directory with files in the destination cannot be put there: it is skipped and the run
  ends with an error. With \<open>--delete\<close> the destination files that the source does not
  have are removed (excluded ones are protected). \<open>rsync_upto n\<close> is the run that stops
  after \<open>n\<close> entries of the source; its first component says that no file was refused.
\<close>

record rsync_flags =
  excludes :: "string list"
  delete_extraneous :: bool

definition rsync_excluded :: "string list \<Rightarrow> path \<Rightarrow> bool" where
  "rsync_excluded pats rel = list_ex (\<lambda>seg. list_ex (\<lambda>pat. glob_match pat seg) pats) (segments rel)"

definition rsync_make_dirs :: "string list \<Rightarrow> path \<Rightarrow> tree \<Rightarrow> tree" where
  "rsync_make_dirs pats rel dst =
     filter (\<lambda>(q, g). \<not> (under q rel \<and> \<not> rsync_excluded pats q)) dst"

definition rsync_refused :: "string list \<Rightarrow> path \<Rightarrow> tree \<Rightarrow> bool" where
  "rsync_refused pats rel dst =
     (\<not> rsync_excluded pats rel \<and> is_dir_in (rsync_make_dirs pats rel dst) rel)"

definition rsync_transfer :: "string list \<Rightarrow> path \<times> file_node \<Rightarrow> tree \<Rightarrow> tree" where
  "rsync_transfer pats entry dst =
     (case entry of (rel, f) \<Rightarrow>
       (let made = rsync_make_dirs pats rel dst in
        if rsync_excluded pats rel \<or> is_dir_in made rel then made
        else
          (case map_of made rel of
             None \<Rightarrow> AList.update rel f made
           | Some g \<Rightarrow>
               if length (content g) = length (content f)
                  \<and> mtimeMs g div 1000 = mtimeMs f div 1000
               then made
               else AList.update rel f made)))"

definition rsync_step :: "string list \<Rightarrow> path \<times> file_node \<Rightarrow> bool \<times> tree \<Rightarrow> bool \<times> tree" where
  "rsync_step pats entry st =
     (case st of (ok, dst) \<Rightarrow>
        (ok \<and> \<not> rsync_refused pats (fst entry) dst, rsync_transfer pats entry dst))"

definition rsync_upto :: "nat \<Rightarrow> rsync_flags \<Rightarrow> tree \<Rightarrow> tree \<Rightarrow> bool \<times> tree" where
  "rsync_upto n flags src dst =
     (let sent = filter (\<lambda>(rel, f). \<not> rsync_excluded (excludes flags) rel) src;
          kept = (if delete_extraneous flags
                  then filter (\<lambda>(rel, g). rel \<in> fst ` set sent
                                          \<or> rsync_excluded (excludes flags) rel) dst
                  else dst)
      in fold (rsync_step (excludes flags)) (take n src) (True, kept))"

text \<open>\<open>execAsync(rsyncCmd)\<close>: whether the command succeeded, and the destination after it.\<close>

definition execRsync :: "env \<Rightarrow> rsync_flags \<Rightarrow> tree \<Rightarrow> tree \<Rightarrow> bool \<times> tree" where
  "execRsync e flags src dst =
     (case rsync_upto (if rsync_ok e then length src else rsync_progress e) flags src dst of
        (ok, t) \<Rightarrow> (rsync_ok e \<and> ok, t))"

text \<open>
  \<open>copyDirectoryRecursive\<close>: every entry whose name is excluded is skipped, directories
  included; \<open>fs.copyFile\<close> writes the bytes with the current time. \<open>fs.mkdir\<close> throws
  where a regular file stands for a directory and \<open>fs.copyFile\<close> throws on a directory:
  the copy stops there, with what it has written. The result is whether it completed, and
  the target after it.
\<close>

definition copy_entry :: "int \<Rightarrow> path \<times> file_node \<Rightarrow> tree \<Rightarrow> tree" where
  "copy_entry t entry dst =
     (case entry of (rel, f) \<Rightarrow> AList.update rel \<lparr>content = content f, mtimeMs = t\<rparr> dst)"

definition copy_refused :: "tree \<Rightarrow> path \<Rightarrow> bool" where
  "copy_refused dst rel = (file_in_the_way dst rel \<or> is_dir_in dst rel)"

fun copy_all :: "int \<Rightarrow> (path \<times> file_node) list \<Rightarrow> tree \<Rightarrow> bool \<times> tree" where
  "copy_all t [] dst = (True, dst)"
| "copy_all t (entry # rest) dst =
     (if copy_refused dst (fst entry) then (False, dst)
      else copy_all t rest (copy_entry t entry dst))"

definition copyDirectoryRecursive ::
  "bool \<Rightarrow> int \<Rightarrow> tree \<Rightarrow> tree \<Rightarrow> string list \<Rightarrow> bool \<times> tree" where
  "copyDirectoryRecursive writable t src dst pats =
     (if \<not> writable then (False, dst)
      else copy_all t
             (filter (\<lambda>(rel, f). \<not> list_ex (shouldExclude pats) (segments rel)) src) dst)"

text \<open>\<open>copyProjectFiles\<close>: \<open>rsync\<close> first, the recursive copy when it fails; \<open>None\<close> is
  the exception of a failed copy.\<close>

definition copyProjectFiles :: "env \<Rightarrow> tree \<Rightarrow> tree option" where
  "copyProjectFiles e targetDir =
     (case execRsync e \<lparr>excludes = excludePatterns, delete_extraneous = False\<rparr>
             (project e) targetDir of
        (True, t) \<Rightarrow> Some t
      | (False, t) \<Rightarrow>
          (case copyDirectoryRecursive (store_writable e) (now e) (project e) t
                  excludePatterns of
             (True, t') \<Rightarrow> Some t'
           | (False, t') \<Rightarrow> None))"

text \<open>\<open>copyChangedFiles\<close>: a file that cannot be copied is skipped with a warning.\<close>

definition copyChangedFiles :: "env \<Rightarrow> tree \<Rightarrow> path list \<Rightarrow> tree" where
  "copyChangedFiles e targetDir files =
     fold (\<lambda>file dst.
             (case map_of (project e) file of
                None \<Rightarrow> dst
              | Some f \<Rightarrow>
                  if copy_refused dst file then dst else copy_entry (now e) (file, f) dst))
       files targetDir"

text \<open>\<open>getSnapshotFileList\<close>: the files of a snapshot directory, metadata apart; empty
  when the directory cannot be read.\<close>

definition metadata_name :: string where
  "metadata_name = ''snapshot_metadata.json''"

definition getSnapshotFileList :: "store_disk \<Rightarrow> string \<Rightarrow> path list" where
  "getSnapshotFileList disk snapshotId =
     (case map_of (snapshot_dirs disk) snapshotId of
        None \<Rightarrow> []
      | Some t \<Rightarrow> filter (\<lambda>rel. metadata_name \<notin> set (segments rel)) (map fst t))"

section \<open>Creating a project snapshot\<close>

text \<open>\<open>saveSnapshotFiles\<close>; \<open>None\<close> is an exception.\<close>

definition saveSnapshotFiles :: "env \<Rightarrow> ProjectSnapshot \<Rightarrow> store_disk \<Rightarrow> store_disk option" where
  "saveSnapshotFiles e snapshot disk =
     (if \<not> store_writable e then None
      else
        (let snapshotDir = (case map_of (snapshot_dirs disk) (ps_id snapshot) of
                              None \<Rightarrow> [] | Some t \<Rightarrow> t);
             copied = (if ps_type snapshot = full then copyProjectFiles e snapshotDir
                       else Some (copyChangedFiles e snapshotDir (changedFiles snapshot)))
         in (case copied of
               None \<Rightarrow> None
             | Some t \<Rightarrow>
                 Some (disk\<lparr>snapshot_dirs :=
                         AList.update (ps_id snapshot)
                           (AList.update metadata_name
                              \<lparr>content = stringify e snapshot, mtimeMs = now e\<rparr> t)
                           (snapshot_dirs disk)\<rparr>))))"

text \<open>\<open>cleanupOldSnapshots\<close>: a directory that cannot be removed is left, with a warning.\<close>

definition cleanupOldSnapshots ::
  "env \<Rightarrow> ProjectSnapshotData \<Rightarrow> store_disk \<Rightarrow> ProjectSnapshotData \<times> store_disk" where
  "cleanupOldSnapshots e d disk =
     (if length (snapshots d) \<le> maxSnapshots d then (d, disk)
      else
        (let sortedSnapshots = sort_key (\<lambda>s. - timestamp s) (snapshots d);
             snapshotsToKeep = take (maxSnapshots d) sortedSnapshots;
             snapshotsToDelete = drop (maxSnapshots d) sortedSnapshots
         in (d\<lparr>snapshots := snapshotsToKeep\<rparr>,
             disk\<lparr>snapshot_dirs :=
                    fold (\<lambda>s dirs. if store_writable e then AList.delete (ps_id s) dirs else dirs)
                      snapshotsToDelete (snapshot_dirs disk)\<rparr>)))"

text \<open>The change analysis of \<open>createProjectSnapshot\<close>, with the forced scan and the
  forced snapshot.\<close>

definition detect_changes ::
  "env \<Rightarrow> path \<Rightarrow> string \<Rightarrow> ProjectSnapshotData \<Rightarrow> store_disk
     \<Rightarrow> path list \<times> ProjectSnapshotData \<times> store_disk" where
  "detect_changes e root prompt d disk =
     (case analyzeChangesWithSerena e root d disk of (modifiedFiles, d1, disk1) \<Rightarrow>
       if length modifiedFiles = 0
       then (case forceFileAnalysis e root prompt d1 of (forced, d2) \<Rightarrow>
               if length forced = 0 then ([''*''], d2, disk1) else (forced, d2, disk1))
       else (modifiedFiles, d1, disk1))"

definition shouldDoFullSave :: "ProjectSnapshotData \<Rightarrow> bool" where
  "shouldDoFullSave d =
     (currentSaveNumber d - lastFullSaveNumber d \<ge> fullSaveInterval d \<or> length (snapshots d) = 0)"

text \<open>
  The failure responses of the two managers, one constructor per message of the source;
  \<open>Exception\<close> is the response of a \<open>catch\<close> block.
\<close>

datatype failure =
    NotInitialised | SnapshotNotFound | SnapshotEmpty | Exception
  | Session_not_found | File_not_found | Snapshot_not_found | Snapshot_file_not_found
  | Snapshot_file_corrupted | Path_validation_failed

datatype 'a response = Success 'a | Failure failure

definition createProjectSnapshot ::
  "manager \<Rightarrow> store_disk \<Rightarrow> env \<Rightarrow> path \<Rightarrow> string
     \<Rightarrow> ProjectSnapshot response \<times> manager \<times> store_disk" where
  "createProjectSnapshot m disk e root prompt =
     (if cacheDirectory m = [] then (Failure NotInitialised, m, disk)
      else
        (let d0 = (data m)\<lparr>projectRoot := root,
                           currentSaveNumber := currentSaveNumber (data m) + 1\<rparr>
         in (case detect_changes e root prompt d0 disk of (modifiedFiles, d2, disk1) \<Rightarrow>
          (let snapshotType = (if shouldDoFullSave d2 then full else incremental);
               d3 = (if snapshotType = full
                     then d2\<lparr>lastFullSaveNumber := currentSaveNumber d2\<rparr> else d2);
               snapshot =
                 \<lparr> ps_id = fresh_id e, timestamp = now e, saveNumber = currentSaveNumber d3,
                   ps_type = snapshotType,
                   changedFiles = (if snapshotType = full then [''*''] else modifiedFiles),
                   ps_prompt = prompt, totalFiles = length modifiedFiles,
                   actualFileCount = None \<rparr>
           in (case saveSnapshotFiles e snapshot disk1 of
                 None \<Rightarrow> (Failure Exception, m\<lparr>data := d3\<rparr>, disk1)
               | Some disk2 \<Rightarrow>
                   (let actualFiles = getSnapshotFileList disk2 (ps_id snapshot);
                        snapshot1 = snapshot\<lparr>actualFileCount := Some (length actualFiles)\<rparr>;
                        d4 = d3\<lparr>snapshots := snapshots d3 @ [snapshot1]\<rparr>
                    in (case (if autoCleanup d4 then cleanupOldSnapshots e d4 disk2
                              else (d4, disk2)) of (d5, disk3) \<Rightarrow>
                         (case saveData e d5 disk3 of
                            None \<Rightarrow> (Failure Exception, m\<lparr>data := d5\<rparr>, disk3)
                          | Some disk4 \<Rightarrow> (Success snapshot1, m\<lparr>data := d5\<rparr>, disk4)))))))))"

section \<open>Restore planner\<close>

definition snapshot_dir :: "store_disk \<Rightarrow> ProjectSnapshot \<Rightarrow> tree" where
  "snapshot_dir disk s = (case map_of (snapshot_dirs disk) (ps_id s) of None \<Rightarrow> [] | Some t \<Rightarrow> t)"

definition by_number :: "ProjectSnapshotData \<Rightarrow> int \<Rightarrow> ProjectSnapshot option" where
  "by_number d i = find (\<lambda>s. saveNumber s = i) (snapshots d)"

text \<open>
  The first loop of \<open>buildRestoreChain\<close>, over the save numbers it is given (from
  \<open>targetSaveNumber - 1\<close> down to 1): the first full snapshot whose directory has files.
\<close>

fun scan_for_full :: "ProjectSnapshotData \<Rightarrow> store_disk \<Rightarrow> int list \<Rightarrow> ProjectSnapshot option" where
  "scan_for_full d disk [] = None"
| "scan_for_full d disk (i # rest) =
     (case by_number d i of
        None \<Rightarrow> scan_for_full d disk rest
      | Some snapshot \<Rightarrow>
          if ps_type snapshot = full
          then (if length (getSnapshotFileList disk (ps_id snapshot)) = 0
                then scan_for_full d disk rest
                else Some snapshot)
          else scan_for_full d disk rest)"

text \<open>The degraded search: the full snapshots, newest first by timestamp.\<close>

definition degraded_full :: "ProjectSnapshotData \<Rightarrow> store_disk \<Rightarrow> ProjectSnapshot option" where
  "degraded_full d disk =
     find (\<lambda>snapshot. length (getSnapshotFileList disk (ps_id snapshot)) > 0)
       (sort_key (\<lambda>s. - timestamp s) (filter (\<lambda>s. ps_type s = full) (snapshots d)))"

text \<open>One round of the second loop, for the save number \<open>saveNum\<close>.\<close>

definition chain_step ::
  "ProjectSnapshotData \<Rightarrow> store_disk \<Rightarrow> int \<Rightarrow> ProjectSnapshot list \<Rightarrow> ProjectSnapshot list" where
  "chain_step d disk saveNum chain =
     (case by_number d saveNum of
        None \<Rightarrow> chain
      | Some snapshot \<Rightarrow>
          if ps_type snapshot = full
          then (if length (getSnapshotFileList disk (ps_id snapshot)) > 0 then [snapshot]
                else chain)
          else chain @ [snapshot])"

text \<open>\<open>buildRestoreChain\<close>; \<open>None\<close> is the exception it throws.\<close>

definition buildRestoreChain ::
  "ProjectSnapshotData \<Rightarrow> store_disk \<Rightarrow> ProjectSnapshot \<Rightarrow> ProjectSnapshot list option" where
  "buildRestoreChain d disk targetSnapshot =
     (if ps_type targetSnapshot = full
      then (if length (getSnapshotFileList disk (ps_id targetSnapshot)) = 0
               \<and> length (changedFiles targetSnapshot) > 0
            then None else Some [targetSnapshot])
      else
        (let targetSaveNumber = saveNumber targetSnapshot;
             lastFullSnapshot =
               (case scan_for_full d disk (rev [1..targetSaveNumber - 1]) of
                  Some s \<Rightarrow> Some s
                | None \<Rightarrow> degraded_full d disk)
         in (case lastFullSnapshot of
               None \<Rightarrow> None
             | Some lastFull \<Rightarrow>
                 Some (fold (chain_step d disk) [saveNumber lastFull + 1..targetSaveNumber]
                         [lastFull]))))"

section \<open>Restoring a project snapshot\<close>

text \<open>
  \<open>restoreProjectManually\<close>: with \<open>isFullRestore\<close> the target is emptied first, the
  \<open>.CodeRecoder\<close> entry apart (an entry that cannot be removed is left, with a warning);
  then the snapshot directory is copied over it. The result is whether the copy completed
  (it throws otherwise), and the target after it.
\<close>

definition top_entry :: "path \<Rightarrow> string" where
  "top_entry rel = (case segments rel of [] \<Rightarrow> [] | s # _ \<Rightarrow> s)"

definition restoreProjectManually :: "env \<Rightarrow> tree \<Rightarrow> tree \<Rightarrow> bool \<Rightarrow> bool \<times> tree" where
  "restoreProjectManually e snapshotDir targetDir isFullRestore =
     (let cleared = (if isFullRestore \<and> project_writable e
                     then filter (\<lambda>(rel, f). top_entry rel = ''.CodeRecoder'') targetDir
                     else targetDir)
      in copyDirectoryRecursive (project_writable e) (now e) snapshotDir cleared [])"

text \<open>
  The full restore of one snapshot directory, as both branches of
  \<open>restoreProjectSnapshot\<close> write it: \<open>rsync -av --exclude='.CodeRecoder'\<close>, and the
  manual restore with \<open>isFullRestore = false\<close> when \<open>rsync\<close> fails. The result is
  whether it completed, and the project tree after it.
\<close>

definition restore_full_dir :: "env \<Rightarrow> tree \<Rightarrow> tree \<Rightarrow> bool \<times> tree" where
  "restore_full_dir e snapshotDir target =
     (case execRsync e \<lparr>excludes = [''.CodeRecoder''], delete_extraneous = False\<rparr>
             snapshotDir target of
        (True, t) \<Rightarrow> (True, t)
      | (False, t) \<Rightarrow> restoreProjectManually e snapshotDir t False)"

text \<open>The incremental restore of one chain element: a file that the snapshot directory
  lacks, or that cannot be written, is skipped.\<close>

definition restore_changed :: "env \<Rightarrow> tree \<Rightarrow> path list \<Rightarrow> tree \<Rightarrow> tree" where
  "restore_changed e snapshotDir files target =
     fold (\<lambda>file t.
             (case map_of snapshotDir file of
                None \<Rightarrow> t
              | Some f \<Rightarrow>
                  if project_writable e \<and> \<not> copy_refused t file
                  then copy_entry (now e) (file, f) t else t))
       files target"

text \<open>The loop over the restore chain; it stops at the first exception.\<close>

fun restore_chain :: "env \<Rightarrow> store_disk \<Rightarrow> ProjectSnapshot list \<Rightarrow> tree \<Rightarrow> bool \<times> tree" where
  "restore_chain e disk [] target = (True, target)"
| "restore_chain e disk (chainSnapshot # rest) target =
     (if ps_type chainSnapshot = full
      then (if length (getSnapshotFileList disk (ps_id chainSnapshot)) = 0 then (False, target)
            else (case restore_full_dir e (snapshot_dir disk chainSnapshot) target of
                    (False, t) \<Rightarrow> (False, t)
                  | (True, t) \<Rightarrow> restore_chain e disk rest t))
      else restore_chain e disk rest
             (restore_changed e (snapshot_dir disk chainSnapshot) (changedFiles chainSnapshot)
                target))"

text \<open>
  \<open>restoreProjectSnapshot\<close>: the response, the project tree after the call, and the
  manager and the store directory as the call leaves them.
\<close>

definition restoreProjectSnapshot ::
  "manager \<Rightarrow> store_disk \<Rightarrow> env \<Rightarrow> string
     \<Rightarrow> ProjectSnapshot response \<times> tree \<times> manager \<times> store_disk" where
  "restoreProjectSnapshot m disk e snapshotId =
     (case find (\<lambda>s. ps_id s = snapshotId) (snapshots (data m)) of
        None \<Rightarrow> (Failure SnapshotNotFound, project e, m, disk)
      | Some snapshot \<Rightarrow>
          if ps_type snapshot = full
          then (if length (getSnapshotFileList disk (ps_id snapshot)) = 0
                then (Failure SnapshotEmpty, project e, m, disk)
                else (case restore_full_dir e (snapshot_dir disk snapshot) (project e) of
                        (False, t) \<Rightarrow> (Failure Exception, t, m, disk)
                      | (True, t) \<Rightarrow> (Success snapshot, t, m, disk)))
          else (case buildRestoreChain (data m) disk snapshot of
                  None \<Rightarrow> (Failure Exception, project e, m, disk)
                | Some restoreChain \<Rightarrow>
                    (case restore_chain e disk restoreChain (project e) of
                       (False, t) \<Rightarrow> (Failure Exception, t, m, disk)
                     | (True, t) \<Rightarrow> (Success snapshot, t, m, disk))))"


section \<open>Auxiliary notions for the proofs\<close>

text \<open>The part of the index that the change detector never writes.\<close>

definition counters ::
  "ProjectSnapshotData \<Rightarrow> int \<times> int \<times> int \<times> ProjectSnapshot list \<times> nat \<times> bool" where
  "counters d = (currentSaveNumber d, lastFullSaveNumber d, fullSaveInterval d, snapshots d,
                 maxSnapshots d, autoCleanup d)"

section \<open>File snapshot store: data model (fileSnapshotManager.ts)\<close>

text \<open>
  \<open>FileSnapshot\<close>, \<open>SnapshotSession\<close>, \<open>SnapshotData\<close>. The enrichment fields
  (\<open>aiSummary\<close>, \<open>changeAnalysis\<close>, \<open>metadata\<close>), which only the asynchronous analysis
  writes, and the session's name and description are left out.
\<close>

record FileSnapshot =
  fs_id :: string
  fs_timestamp :: int
  originalPath :: path
  snapshotPath :: path
  fileSize :: nat
  fileHash :: string
  fs_prompt :: string
  sessionId :: string
  parentSnapshotId :: "string option"

record SnapshotSession =
  sess_id :: string
  created :: int
  lastModified :: int
  sess_snapshots :: "FileSnapshot list"
  currentSnapshotId :: "string option"

record SnapshotData =
  sessions :: "SnapshotSession list"
  currentSessionId :: "string option"

record file_manager =
  fm_cacheDirectory :: path
  snapshotsDirectory :: path
  fm_data :: SnapshotData

text \<open>
  The disk as the file store sees it: the regular files by absolute path, and the index
  document \<open>snapshots/snapshots.json\<close> as last written.
\<close>

record fdisk =
  disk_files :: "(path \<times> bytes) list"
  snapshots_json :: "SnapshotData option"

text \<open>
  What one operation of the file store reads from outside: the clock, the working
  directory, the fresh identifiers, the hash function, the serialiser of
  \<open>metadata.json\<close>, the size \<open>stat\<close> reports for a directory, whether writes of files
  and of the index succeed, and what \<open>inferProjectRoot\<close> and \<open>updateCacheDirectory\<close>
  make of a manager whose cache directory is unset or the tool's own.
\<close>

record fenv =
  f_now :: int
  cwd :: path
  fresh_session_id :: string
  fresh_snapshot_id :: string
  f_sha256 :: "bytes \<Rightarrow> string"
  f_stringify :: "FileSnapshot \<Rightarrow> bytes"
  dir_size :: nat
  files_writable :: bool
  json_writable :: bool
  rebind :: "file_manager \<times> fdisk \<Rightarrow> file_manager \<times> fdisk"

text \<open>The constructor with a cache directory, and \<open>updateCacheDirectory\<close>'s two path
  assignments.\<close>

definition new_file_manager :: "path \<Rightarrow> file_manager" where
  "new_file_manager cacheDir =
     \<lparr> fm_cacheDirectory = cacheDir,
       snapshotsDirectory = path_join (path_join cacheDir ''snapshots'') ''files'',
       fm_data = \<lparr>sessions = [], currentSessionId = None\<rparr> \<rparr>"

definition set_cache_directory :: "path \<Rightarrow> file_manager \<Rightarrow> file_manager" where
  "set_cache_directory newCacheDirectory m =
     m\<lparr> fm_cacheDirectory := newCacheDirectory,
        snapshotsDirectory := path_join newCacheDirectory ''snapshots'' \<rparr>"

section \<open>Path guard\<close>

text \<open>\<open>path.resolve(p)\<close> (POSIX) against the working directory.\<close>

fun join_slash :: "string list \<Rightarrow> string" where
  "join_slash [] = []"
| "join_slash [s] = s"
| "join_slash (s # t # rest) = s @ ''/'' @ join_slash (t # rest)"

definition normalize_step :: "string list \<Rightarrow> string \<Rightarrow> string list" where
  "normalize_step acc seg =
     (if seg = [] \<or> seg = ''.'' then acc
      else if seg = ''..'' then butlast acc
      else acc @ [seg])"

definition path_resolve :: "path \<Rightarrow> path \<Rightarrow> path" where
  "path_resolve wd p =
     ''/'' @ join_slash
       (foldl normalize_step [] (split_slash (if is_absolute p then p else wd @ ''/'' @ p)))"

datatype validation = Valid | Parent_reference | Sensitive_path string | Outside_root

definition sensitivePatterns :: "string list" where
  "sensitivePatterns = [''/etc/'', ''/usr/'', ''/bin/'', ''/sbin/'', ''/boot/'', ''/root/'',
                        ''/sys/'', ''/proc/'']"

definition validatePath :: "path \<Rightarrow> path \<Rightarrow> path option \<Rightarrow> validation" where
  "validatePath wd targetPath allowedRoot =
     (let resolvedPath = path_resolve wd targetPath in
      if sublist ''..'' resolvedPath then Parent_reference
      else (case find (\<lambda>pattern. prefix pattern resolvedPath) sensitivePatterns of
              Some pattern \<Rightarrow> Sensitive_path pattern
            | None \<Rightarrow>
                (case allowedRoot of
                   None \<Rightarrow> Valid
                 | Some root \<Rightarrow>
                     if \<not> prefix (path_resolve wd root) resolvedPath then Outside_root
                     else Valid)))"

section \<open>File operations of the file store\<close>

definition is_file :: "fdisk \<Rightarrow> path \<Rightarrow> bool" where
  "is_file disk p = (map_of (disk_files disk) p \<noteq> None)"

definition is_dir :: "fdisk \<Rightarrow> path \<Rightarrow> bool" where
  "is_dir disk p = list_ex (\<lambda>(q, c). under p q) (disk_files disk)"

text \<open>\<open>fs.pathExists\<close>.\<close>

definition pathExists :: "fdisk \<Rightarrow> path \<Rightarrow> bool" where
  "pathExists disk p = (is_file disk p \<or> is_dir disk p)"

definition write_file :: "path \<Rightarrow> bytes \<Rightarrow> fdisk \<Rightarrow> fdisk" where
  "write_file p c disk = disk\<lparr>disk_files := AList.update p c (disk_files disk)\<rparr>"

text \<open>
  \<open>fs.copy(src, dest)\<close> of fs-extra: a file is copied over a file or to a new path, a
  directory is copied file by file; it refuses a missing source, identical paths, a
  destination below the source, and to replace a directory by a file or a file by a
  directory. \<open>None\<close> is the exception.
\<close>

definition fs_copy :: "fenv \<Rightarrow> path \<Rightarrow> path \<Rightarrow> fdisk \<Rightarrow> fdisk option" where
  "fs_copy e src dest disk =
     (if \<not> files_writable e \<or> src = dest then None
      else (case map_of (disk_files disk) src of
              Some c \<Rightarrow> if is_dir disk dest then None else Some (write_file dest c disk)
            | None \<Rightarrow>
                if \<not> is_dir disk src \<or> is_file disk dest \<or> under src dest then None
                else Some (fold (\<lambda>(q, c). write_file (dest @ drop (length src) q) c)
                             (filter (\<lambda>(q, c). under src q) (disk_files disk)) disk)))"

text \<open>\<open>fs.remove(dir)\<close>: the path and everything below it.\<close>

definition fs_remove :: "path \<Rightarrow> fdisk \<Rightarrow> fdisk" where
  "fs_remove p disk = disk\<lparr>disk_files := filter (\<lambda>(q, c). q \<noteq> p \<and> \<not> under p q) (disk_files disk)\<rparr>"


text \<open>\<open>saveData\<close> of the file store; \<open>None\<close> is the exception.\<close>

definition f_saveData :: "fenv \<Rightarrow> SnapshotData \<Rightarrow> fdisk \<Rightarrow> fdisk option" where
  "f_saveData e d disk =
     (if json_writable e then Some (disk\<lparr>snapshots_json := Some d\<rparr>) else None)"



section \<open>File snapshot store: operations\<close>

text \<open>\<open>createSession\<close> without a name, as \<open>createSnapshot\<close> calls it.\<close>

definition createSession ::
  "file_manager \<Rightarrow> fdisk \<Rightarrow> fenv \<Rightarrow> string response \<times> file_manager \<times> fdisk" where
  "createSession m disk e =
     (let session = \<lparr> sess_id = fresh_session_id e, created = f_now e, lastModified = f_now e,
                      sess_snapshots = [], currentSnapshotId = None \<rparr>;
          d = \<lparr> sessions = sessions (fm_data m) @ [session],
                currentSessionId = Some (sess_id session) \<rparr>;
          m1 = m\<lparr>fm_data := d\<rparr>
      in (case f_saveData e d disk of
            None \<Rightarrow> (Failure Exception, m1, disk)
          | Some disk1 \<Rightarrow> (Success (sess_id session), m1, disk1)))"

text \<open>The session a snapshot goes to: the given one, else the current one, else a new one.\<close>

definition ensure_session ::
  "file_manager \<Rightarrow> fdisk \<Rightarrow> fenv \<Rightarrow> string option
     \<Rightarrow> string response \<times> file_manager \<times> fdisk" where
  "ensure_session m disk e given =
     (case given of
        Some sid \<Rightarrow> (Success sid, m, disk)
      | None \<Rightarrow>
          (case currentSessionId (fm_data m) of
             Some sid \<Rightarrow> (Success sid, m, disk)
           | None \<Rightarrow> createSession m disk e))"

definition needs_rebind :: "file_manager \<Rightarrow> bool" where
  "needs_rebind m =
     (fm_cacheDirectory m = [] \<or> sublist ''CodeRecoder/.CodeRecoder'' (fm_cacheDirectory m))"

text \<open>Appending a snapshot to the session with the given identifier (the first one).\<close>

fun push_snapshot :: "int \<Rightarrow> FileSnapshot \<Rightarrow> string \<Rightarrow> SnapshotSession list \<Rightarrow> SnapshotSession list" where
  "push_snapshot t snap sid [] = []"
| "push_snapshot t snap sid (s # rest) =
     (if sess_id s = sid
      then s\<lparr> sess_snapshots := sess_snapshots s @ [snap], lastModified := t,
              currentSnapshotId := Some (fs_id snap) \<rparr> # rest
      else s # push_snapshot t snap sid rest)"

text \<open>
  \<open>createSnapshot\<close>. The asynchronous analysis it starts only writes enrichment fields
  later and is not part of the model.
\<close>

definition createSnapshot ::
  "file_manager \<Rightarrow> fdisk \<Rightarrow> fenv \<Rightarrow> path \<Rightarrow> string \<Rightarrow> string option \<Rightarrow> string option
     \<Rightarrow> FileSnapshot response \<times> file_manager \<times> fdisk" where
  "createSnapshot m0 disk0 e filePath prompt sessionId0 parentId =
     (case (if needs_rebind m0 then rebind e (m0, disk0) else (m0, disk0)) of (m1, disk1) \<Rightarrow>
      (case ensure_session m1 disk1 e sessionId0 of
         (Failure f, m2, disk2) \<Rightarrow> (Failure f, m2, disk2)
       | (Success sid, m2, disk2) \<Rightarrow>
           if find (\<lambda>s. sess_id s = sid) (sessions (fm_data m2)) = None
           then (Failure Session_not_found, m2, disk2)
           else if \<not> pathExists disk2 filePath then (Failure File_not_found, m2, disk2)
           else
             (let snapshotId = fresh_snapshot_id e;
                  snapshotDir = path_join (snapshotsDirectory m2) snapshotId;
                  fileName = basename filePath;
                  snapshotFilePath = path_join snapshotDir fileName
              in (case map_of (disk_files disk2) filePath of
                    None \<Rightarrow> (Failure Exception, m2, disk2)
                  | Some fileContent \<Rightarrow>
                      (case fs_copy e filePath snapshotFilePath disk2 of
                         None \<Rightarrow> (Failure Exception, m2, disk2)
                       | Some disk3 \<Rightarrow>
                           (let snapshot =
                                  \<lparr> fs_id = snapshotId, fs_timestamp = f_now e,
                                    originalPath = filePath, snapshotPath = snapshotFilePath,
                                    fileSize = length fileContent,
                                    fileHash = f_sha256 e fileContent, fs_prompt = prompt,
                                    sessionId = sid, parentSnapshotId = parentId \<rparr>;
                                disk4 = write_file (path_join snapshotDir ''metadata.json'')
                                          (f_stringify e snapshot) disk3;
                                d = (fm_data m2)\<lparr>sessions :=
                                       push_snapshot (f_now e) snapshot sid
                                         (sessions (fm_data m2))\<rparr>;
                                m3 = m2\<lparr>fm_data := d\<rparr>
                            in (case f_saveData e d disk4 of
                                  None \<Rightarrow> (Failure Exception, m3, disk4)
                                | Some disk5 \<Rightarrow> (Success snapshot, m3, disk5))))))))"

text \<open>The first session that holds a snapshot with the identifier, and the snapshot.\<close>

fun find_target :: "SnapshotSession list \<Rightarrow> string \<Rightarrow> (FileSnapshot \<times> SnapshotSession) option" where
  "find_target [] snapshotId = None"
| "find_target (session # rest) snapshotId =
     (case find (\<lambda>s. fs_id s = snapshotId) (sess_snapshots session) of
        Some snapshot \<Rightarrow> Some (snapshot, session)
      | None \<Rightarrow> find_target rest snapshotId)"

text \<open>The update of that session, in place.\<close>

fun update_target ::
  "(SnapshotSession \<Rightarrow> SnapshotSession) \<Rightarrow> string \<Rightarrow> SnapshotSession list \<Rightarrow> SnapshotSession list" where
  "update_target f snapshotId [] = []"
| "update_target f snapshotId (session # rest) =
     (case find (\<lambda>s. fs_id s = snapshotId) (sess_snapshots session) of
        Some snapshot \<Rightarrow> f session # rest
      | None \<Rightarrow> session # update_target f snapshotId rest)"




text \<open>\<open>deleteSnapshot\<close>; the success response carries the number of snapshots left in the
  session.\<close>

definition remove_from_session :: "int \<Rightarrow> string \<Rightarrow> SnapshotSession \<Rightarrow> SnapshotSession" where
  "remove_from_session t snapshotId session =
     (let remaining = (case List.extract (\<lambda>s. fs_id s = snapshotId) (sess_snapshots session) of
                         None \<Rightarrow> sess_snapshots session
                       | Some (before, s, after) \<Rightarrow> before @ after);
          s1 = session\<lparr>sess_snapshots := remaining, lastModified := t\<rparr>
      in if currentSnapshotId s1 = Some snapshotId
         then s1\<lparr>currentSnapshotId :=
                   (if length remaining > 0 then Some (fs_id (last remaining)) else None)\<rparr>
         else s1)"

definition deleteSnapshot ::
  "file_manager \<Rightarrow> fdisk \<Rightarrow> fenv \<Rightarrow> string \<Rightarrow> nat response \<times> file_manager \<times> fdisk" where
  "deleteSnapshot m disk e snapshotId =
     (case find_target (sessions (fm_data m)) snapshotId of
        None \<Rightarrow> (Failure Snapshot_not_found, m, disk)
      | Some (targetSnapshot, targetSession) \<Rightarrow>
          (let snapshotDir = path_join (path_join (fm_cacheDirectory m) ''snapshots'') snapshotId
           in (case (if pathExists disk snapshotDir
                     then (if files_writable e then Some (fs_remove snapshotDir disk) else None)
                     else Some disk) of
                 None \<Rightarrow> (Failure Exception, m, disk)
               | Some disk1 \<Rightarrow>
                   (let d = (fm_data m)\<lparr>sessions :=
                               update_target (remove_from_session (f_now e) snapshotId)
                                 snapshotId (sessions (fm_data m))\<rparr>;
                        m1 = m\<lparr>fm_data := d\<rparr>
                    in (case f_saveData e d disk1 of
                          None \<Rightarrow> (Failure Exception, m1, disk1)
                        | Some disk2 \<Rightarrow>
                            (Success (length (sess_snapshots
                                        (remove_from_session (f_now e) snapshotId targetSession))),
                             m1, disk2))))))"

section \<open>Store histories\<close>

text \<open>A sequence of \<open>createProjectSnapshot\<close> calls, each with its own environment (the
  project tree and the clock as that call finds them); the responses in order, and the
  manager and the store directory at the end.\<close>

fun create_all ::
  "manager \<Rightarrow> store_disk \<Rightarrow> (env \<times> path \<times> string) list
     \<Rightarrow> ProjectSnapshot response list \<times> manager \<times> store_disk" where
  "create_all m disk [] = ([], m, disk)"
| "create_all m disk ((e, root, prompt) # calls) =
     (case createProjectSnapshot m disk e root prompt of (r, m1, disk1) \<Rightarrow>
       (case create_all m1 disk1 calls of (rs, m2, disk2) \<Rightarrow> (r # rs, m2, disk2)))"

definition is_success :: "'a response \<Rightarrow> bool" where
  "is_success r = (case r of Success x \<Rightarrow> True | Failure f \<Rightarrow> False)"

definition call_time :: "env \<times> path \<times> string \<Rightarrow> int" where
  "call_time c = now (fst c)"

text \<open>
  The save numbers of the snapshots held are distinct, they are the run of
  \<open>length snaps\<close> numbers that ends at \<open>cur\<close>, and they are ordered as the timestamps.
\<close>

definition run_inv :: "int \<Rightarrow> ProjectSnapshot list \<Rightarrow> bool" where
  "run_inv cur snaps \<longleftrightarrow>
     distinct (map saveNumber snaps) \<and>
     saveNumber ` set snaps = {cur - int (length snaps) + 1..cur} \<and>
     (\<forall>a \<in> set snaps. \<forall>b \<in> set snaps.
        (timestamp a < timestamp b) = (saveNumber a < saveNumber b))"





text \<open>What the planner's second loop sees at one save number.\<close>

definition usable_full_at :: "ProjectSnapshotData \<Rightarrow> store_disk \<Rightarrow> int \<Rightarrow> bool" where
  "usable_full_at d disk i =
     (case by_number d i of
        None \<Rightarrow> False
      | Some s \<Rightarrow> ps_type s = full \<and> getSnapshotFileList disk (ps_id s) \<noteq> [])"

definition inc_at :: "ProjectSnapshotData \<Rightarrow> int \<Rightarrow> ProjectSnapshot list" where
  "inc_at d i =
     (case by_number d i of None \<Rightarrow> [] | Some s \<Rightarrow> if ps_type s = full then [] else [s])"

section \<open>Concrete stores used by the worked examples\<close>

definition hello_file :: file_node where
  "hello_file = \<lparr>content = ''hello'', mtimeMs = 100\<rparr>"

definition e1 :: env where
  "e1 = \<lparr> now = 5000, fresh_id = ''id1'', git_status = None,
          project = [(''a.txt'', hello_file)],
          sha256 = (\<lambda>c. c), stringify = (\<lambda>s. ''meta''), rsync_ok = True,
          rsync_progress = 0, store_writable = True, index_writable = True, project_writable = True \<rparr>"

definition m1 :: manager where
  "m1 = \<lparr>cacheDirectory = ''/p/.CodeRecoder'', data = initial_data\<rparr>"

definition disk0 :: store_disk where
  "disk0 = \<lparr>snapshot_dirs = [], index_doc = None\<rparr>"

text \<open>A store whose baseline of \<open>a.txt\<close> is stale, seen without \<open>git\<close>.\<close>

definition stale_data :: ProjectSnapshotData where
  "stale_data = initial_data\<lparr>fileBaselines :=
     [(''a.txt'', \<lparr>bl_filePath = ''a.txt'', bl_lastModified = 100, bl_fileSize = 5,
                  bl_contentHash = ''world''\<rparr>)]\<rparr>"

text \<open>
  A store with the chain full 1, incremental 2, incremental 3, and a project tree that
  has been edited since and holds a file no snapshot has.
\<close>

definition snap1 :: ProjectSnapshot where
  "snap1 = \<lparr> ps_id = ''s1'', timestamp = 1000, saveNumber = 1, ps_type = full,
             changedFiles = [''*''], ps_prompt = ''init'', totalFiles = 1,
             actualFileCount = Some 1 \<rparr>"

definition snap2 :: ProjectSnapshot where
  "snap2 = \<lparr> ps_id = ''s2'', timestamp = 2000, saveNumber = 2, ps_type = incremental,
             changedFiles = [''a.txt''], ps_prompt = ''edit'', totalFiles = 1,
             actualFileCount = Some 1 \<rparr>"

definition snap3 :: ProjectSnapshot where
  "snap3 = \<lparr> ps_id = ''s3'', timestamp = 3000, saveNumber = 3, ps_type = incremental,
             changedFiles = [''a.txt'', ''b.txt''], ps_prompt = ''more'', totalFiles = 2,
             actualFileCount = Some 2 \<rparr>"

definition meta_file :: file_node where
  "meta_file = \<lparr>content = ''meta'', mtimeMs = 1000\<rparr>"

definition chain_data :: ProjectSnapshotData where
  "chain_data = initial_data\<lparr> projectRoot := ''/p'', currentSaveNumber := 3,
                  lastFullSaveNumber := 1, snapshots := [snap1, snap2, snap3] \<rparr>"

definition chain_disk :: store_disk where
  "chain_disk =
     \<lparr> snapshot_dirs =
         [(''s1'', [(''a.txt'', \<lparr>content = ''1'', mtimeMs = 900\<rparr>),
                    (''snapshot_metadata.json'', meta_file)]),
          (''s2'', [(''a.txt'', \<lparr>content = ''2'', mtimeMs = 2000\<rparr>),
                    (''snapshot_metadata.json'', meta_file)]),
          (''s3'', [(''a.txt'', \<lparr>content = ''3'', mtimeMs = 3000\<rparr>),
                    (''b.txt'', \<lparr>content = ''b'', mtimeMs = 3000\<rparr>),
                    (''snapshot_metadata.json'', meta_file)])],
       index_doc = Some chain_data \<rparr>"

definition chain_mgr :: manager where
  "chain_mgr = \<lparr>cacheDirectory = ''/p/.CodeRecoder'', data = chain_data\<rparr>"

definition extra_file :: file_node where
  "extra_file = \<lparr>content = ''keep me'', mtimeMs = 4000\<rparr>"

definition e_restore :: env where
  "e_restore = e1\<lparr> now := 9000,
                    project := [(''a.txt'', \<lparr>content = ''9'', mtimeMs = 8000\<rparr>),
                                (''extra.txt'', extra_file)] \<rparr>"

text \<open>
  A store after retention has reaped its first full snapshot: \<open>maxSnapshots = 2\<close>,
  \<open>fullSaveInterval = 2\<close>, three snapshots created.
\<close>

definition reaped_inc2 :: ProjectSnapshot where
  "reaped_inc2 = \<lparr> ps_id = ''r2'', timestamp = 2000, saveNumber = 2, ps_type = incremental,
                   changedFiles = [''a.txt''], ps_prompt = ''edit'', totalFiles = 1,
                   actualFileCount = Some 1 \<rparr>"

definition reaped_full3 :: ProjectSnapshot where
  "reaped_full3 = \<lparr> ps_id = ''r3'', timestamp = 3000, saveNumber = 3, ps_type = full,
                    changedFiles = [''*''], ps_prompt = ''more'', totalFiles = 1,
                    actualFileCount = Some 1 \<rparr>"

definition reaped_data :: ProjectSnapshotData where
  "reaped_data = initial_data\<lparr> projectRoot := ''/p'', currentSaveNumber := 3,
                   lastFullSaveNumber := 3, fullSaveInterval := 2,
                   snapshots := [reaped_full3, reaped_inc2], maxSnapshots := 2 \<rparr>"

definition reaped_disk :: store_disk where
  "reaped_disk =
     \<lparr> snapshot_dirs =
         [(''r2'', [(''a.txt'', \<lparr>content = ''2'', mtimeMs = 2000\<rparr>),
                    (''snapshot_metadata.json'', meta_file)]),
          (''r3'', [(''a.txt'', \<lparr>content = ''3'', mtimeMs = 2500\<rparr>),
                    (''snapshot_metadata.json'', meta_file)])],
       index_doc = Some reaped_data \<rparr>"

text \<open>A store with a gap: the call that would have made snapshot 2 failed.\<close>

definition gap_inc3 :: ProjectSnapshot where
  "gap_inc3 = snap3\<lparr>ps_id := ''g3''\<rparr>"

definition gap_data :: ProjectSnapshotData where
  "gap_data = initial_data\<lparr> projectRoot := ''/p'', currentSaveNumber := 3,
                lastFullSaveNumber := 1, snapshots := [snap1, gap_inc3] \<rparr>"

text \<open>
  A file store built by the constructor for the cache directory \<open>/p/.CodeRecoder\<close>, a
  disk with a project file and a system file, and the store after one snapshot of the
  project file.
\<close>

definition fe1 :: fenv where
  "fe1 = \<lparr> f_now = 1700000000000, cwd = ''/p'', fresh_session_id = ''sess1'',
           fresh_snapshot_id = ''snapA'', f_sha256 = (\<lambda>c. c), f_stringify = (\<lambda>s. ''meta''),
           dir_size = 4096, files_writable = True, json_writable = True,
           rebind = (\<lambda>x. x) \<rparr>"

definition fm0 :: file_manager where
  "fm0 = new_file_manager ''/p/.CodeRecoder''"

definition fdisk0 :: fdisk where
  "fdisk0 = \<lparr> disk_files = [(''/etc/passwd'', ''root:x:0:0''), (''/p/a.txt'', ''A'')],
              snapshots_json = None \<rparr>"

definition snapA :: FileSnapshot where
  "snapA = \<lparr> fs_id = ''snapA'', fs_timestamp = 1700000000000, originalPath = ''/p/a.txt'',
             snapshotPath = ''/p/.CodeRecoder/snapshots/files/snapA/a.txt'', fileSize = 1,
             fileHash = ''A'', fs_prompt = ''x'', sessionId = ''sess1'',
             parentSnapshotId = None \<rparr>"

definition fm_after_create :: file_manager where
  "fm_after_create = fst (snd (createSnapshot fm0 fdisk0 fe1 ''/p/a.txt'' ''x'' None None))"

definition fdisk_after_create :: fdisk where
  "fdisk_after_create = snd (snd (createSnapshot fm0 fdisk0 fe1 ''/p/a.txt'' ''x'' None None))"


text \<open>Half a second later; the project file has been edited to \<open>B\<close>.\<close>

definition fe2 :: fenv where
  "fe2 = fe1\<lparr>f_now := 1700000000500\<rparr>"


text \<open>The same store after \<open>updateCacheDirectory\<close> has set its two directories.\<close>

definition fm_rebound :: file_manager where
  "fm_rebound = set_cache_directory ''/p/.CodeRecoder'' fm0"

text \<open>
  A manager with \<open>maxSnapshots = 2\<close> and \<open>fullSaveInterval = 2\<close>, three calls a second
  apart, and the same three calls with a disk that refuses the second write.
\<close>

definition small_mgr :: manager where
  "small_mgr = \<lparr> cacheDirectory = ''/p/.CodeRecoder'',
                  data = initial_data\<lparr>fullSaveInterval := 2, maxSnapshots := 2\<rparr> \<rparr>"

definition three_calls :: "(env \<times> path \<times> string) list" where
  "three_calls = [(e1\<lparr>now := 1000, fresh_id := ''id1''\<rparr>, ''/p'', ''one''),
                  (e1\<lparr>now := 2000, fresh_id := ''id2''\<rparr>, ''/p'', ''two''),
                  (e1\<lparr>now := 3000, fresh_id := ''id3''\<rparr>, ''/p'', ''three'')]"

definition failing_calls :: "(env \<times> path \<times> string) list" where
  "failing_calls = [(e1\<lparr>now := 1000, fresh_id := ''id1''\<rparr>, ''/p'', ''one''),
                    (e1\<lparr>now := 2000, fresh_id := ''id2'', store_writable := False\<rparr>,
                     ''/p'', ''two''),
                    (e1\<lparr>now := 3000, fresh_id := ''id3''\<rparr>, ''/p'', ''three'')]"

text \<open>
  A store with one full snapshot, and a project whose only file the change detector's
  walk skips (\<open>.tmp\<close>) while the full copy would take it.
\<close>

definition forced_mgr :: manager where
  "forced_mgr = \<lparr> cacheDirectory = ''/p/.CodeRecoder'',
                   data = initial_data\<lparr> projectRoot := ''/p'', currentSaveNumber := 1,
                            lastFullSaveNumber := 1, snapshots := [snap1] \<rparr> \<rparr>"

definition forced_env :: env where
  "forced_env = e1\<lparr> now := 9000, fresh_id := ''f2'',
                     project := [(''notes.tmp'', \<lparr>content = ''draft'', mtimeMs = 8000\<rparr>)] \<rparr>"

definition forced_snapshot :: ProjectSnapshot where
  "forced_snapshot = \<lparr> ps_id = ''f2'', timestamp = 9000, saveNumber = 2,
                       ps_type = incremental, changedFiles = [''*''], ps_prompt = ''save'',
                       totalFiles = 1, actualFileCount = Some 0 \<rparr>"

definition forced_disk :: store_disk where
  "forced_disk =
     \<lparr> snapshot_dirs =
         [(''s1'', [(''a.txt'', \<lparr>content = ''1'', mtimeMs = 900\<rparr>),
                    (''snapshot_metadata.json'', meta_file)])],
       index_doc = Some (data forced_mgr) \<rparr>"

text \<open>
  A store whose full snapshot holds the directory \<open>x\<close>, and a project in which \<open>x\<close> is
  a regular file.
\<close>

definition clash_snap :: ProjectSnapshot where
  "clash_snap = \<lparr> ps_id = ''c1'', timestamp = 1000, saveNumber = 1, ps_type = full,
                  changedFiles = [''*''], ps_prompt = ''init'', totalFiles = 1,
                  actualFileCount = Some 1 \<rparr>"

definition clash_mgr :: manager where
  "clash_mgr = \<lparr> cacheDirectory = ''/p/.CodeRecoder'',
                  data = initial_data\<lparr> projectRoot := ''/p'', currentSaveNumber := 1,
                           lastFullSaveNumber := 1, snapshots := [clash_snap] \<rparr> \<rparr>"

definition clash_disk :: store_disk where
  "clash_disk =
     \<lparr> snapshot_dirs =
         [(''c1'', [(''x/y.txt'', \<lparr>content = ''payload'', mtimeMs = 900\<rparr>),
                    (''snapshot_metadata.json'', meta_file)])],
       index_doc = Some (data clash_mgr) \<rparr>"

definition x_file :: file_node where
  "x_file = \<lparr>content = ''I am a file'', mtimeMs = 8000\<rparr>"

definition clash_env :: env where
  "clash_env = e1\<lparr>now := 9000, project := [(''x'', x_file)]\<rparr>"

section \<open>The change detector leaves the counters and the snapshot list alone\<close>

lemma fold_counters:
  assumes "\<And>x st. counters (snd (step x st)) = counters (snd st)"
  shows "counters (snd (fold step xs st)) = counters (snd st)"
  using assms by (induction xs arbitrary: st) auto

lemma counters_updateFileBaseline [simp]:
  "counters (updateFileBaseline e p f root d) = counters d"
  by (simp add: counters_def updateFileBaseline_def Let_def)

lemma counters_baselines_update [simp]:
  "counters (d\<lparr>fileBaselines := b\<rparr>) = counters d"
  by (simp add: counters_def)

lemma counters_scan_update [simp]:
  "counters (d\<lparr>lastScanTime := t\<rparr>) = counters d"
  by (simp add: counters_def)

lemma counters_hash_step: "counters (snd (hash_step e root x st)) = counters (snd st)"
  by (auto simp: hash_step_def Let_def split: prod.splits option.splits)

lemma counters_stats_step: "counters (snd (stats_step e root x st)) = counters (snd st)"
  by (auto simp: stats_step_def split: prod.splits option.splits)

lemma counters_new_file_step: "counters (snd (new_file_step e root x st)) = counters (snd st)"
  by (auto simp: new_file_step_def split: prod.splits option.splits)

lemma counters_hash [simp]: "counters (snd (getFilesByHashComparison e root d)) = counters d"
  by (simp add: getFilesByHashComparison_def
      fold_counters [of "hash_step e root", OF counters_hash_step])

lemma counters_stats [simp]: "counters (snd (getFilesByStatsComparison e root d)) = counters d"
  by (simp add: getFilesByStatsComparison_def
      fold_counters [of "stats_step e root", OF counters_stats_step])

lemma counters_new_files [simp]: "counters (snd (findNewFiles e root d)) = counters d"
  by (simp add: findNewFiles_def
      fold_counters [of "new_file_step e root", OF counters_new_file_step])

lemma counters_getModifiedFiles [simp]:
  "counters (snd (getModifiedFiles e root d)) = counters d"
proof -
  obtain h d1 where h: "getFilesByHashComparison e root d = (h, d1)" by force
  obtain s d2 where s: "getFilesByStatsComparison e root d1 = (s, d2)" by force
  have "counters d1 = counters d" using counters_hash [of e root d] h by simp
  moreover have "counters d2 = counters d1" using counters_stats [of e root d1] s by simp
  ultimately show ?thesis
    by (simp add: getModifiedFiles_def Let_def h s)
qed

lemma counters_updateAll [simp]:
  "counters (fst (updateAllFileBaselines e root d disk)) = counters d"
proof -
  have "counters (fold (\<lambda>(filePath, f). updateFileBaseline e filePath f root) xs d) = counters d"
    for xs
    by (induction xs arbitrary: d) auto
  then show ?thesis by (simp add: updateAllFileBaselines_def Let_def)
qed

lemma counters_analyze [simp]:
  "counters (fst (snd (analyzeChangesWithSerena e root d disk))) = counters d"
proof -
  obtain d1 r where u: "updateAllFileBaselines e root d disk = (d1, r)" by force
  have d1: "counters d1 = counters d" using counters_updateAll [of e root d disk] u by simp
  obtain f1 dd1 where g1: "getModifiedFiles e root d1 = (f1, dd1)" by force
  have dd1: "counters dd1 = counters d"
    using counters_getModifiedFiles [of e root d1] g1 d1 by simp
  obtain f2 dd2 where g2: "getModifiedFiles e root d = (f2, dd2)" by force
  have dd2: "counters dd2 = counters d" using counters_getModifiedFiles [of e root d] g2 by simp
  show ?thesis
    by (cases r) (simp_all add: analyzeChangesWithSerena_def u g1 g2 dd1 dd2)
qed

lemma counters_force [simp]:
  "counters (snd (forceFileAnalysis e root prompt d)) = counters d"
proof -
  obtain n dn where n: "findNewFiles e root d = (n, dn)" by force
  have "counters dn = counters d" using counters_new_files [of e root d] n by simp
  then show ?thesis
    by (simp add: forceFileAnalysis_def Let_def n split: prod.splits)
qed

lemma counters_detect [simp]:
  "counters (fst (snd (detect_changes e root prompt d disk))) = counters d"
proof -
  obtain a d1 disk1 where a: "analyzeChangesWithSerena e root d disk = (a, d1, disk1)"
    by (metis prod_cases3)
  have d1: "counters d1 = counters d" using counters_analyze [of e root d disk] a by simp
  obtain f d2 where f: "forceFileAnalysis e root prompt d1 = (f, d2)" by force
  have "counters d2 = counters d" using counters_force [of e root prompt d1] f d1 by simp
  with d1 show ?thesis
    by (simp add: detect_changes_def a f)
qed

section \<open>Change detector: the order of the layers\<close>

text \<open>
  Claim C9. \<open>getModifiedFiles\<close> tries the VCS status, the hash comparison, the stat
  comparison and the recently-modified walk in this order; it returns the result of the
  first layer that is not empty, with the index as that layer left it (the later layers,
  which would refresh baselines, have not run), and \<open>lastScanTime\<close> is the current time
  after every call.
\<close>

theorem getModifiedFiles_first_nonempty_layer:
  "getModifiedFiles e root d =
     (let g = getGitModifiedFiles e root;
          h = getFilesByHashComparison e root d;
          s = getFilesByStatsComparison e root (snd h);
          r = getRecentlyModifiedFiles e root hour_ms
      in if g \<noteq> [] then (g, d\<lparr>lastScanTime := now e\<rparr>)
         else if fst h \<noteq> [] then (fst h, (snd h)\<lparr>lastScanTime := now e\<rparr>)
         else if fst s \<noteq> [] then (fst s, (snd s)\<lparr>lastScanTime := now e\<rparr>)
         else (r, (snd s)\<lparr>lastScanTime := now e\<rparr>))
   \<and> lastScanTime (snd (getModifiedFiles e root d)) = now e"
  by (auto simp: getModifiedFiles_def Let_def split: prod.splits)

theorem getModifiedFiles_first_nonempty_layer_witness:
  "fst (getModifiedFiles e1 ''/p'' stale_data) = [''/p/a.txt''] \<and>
   map (bl_contentHash \<circ> snd) (fileBaselines (snd (getModifiedFiles e1 ''/p'' stale_data)))
     = [''hello''] \<and>
   lastScanTime (snd (getModifiedFiles e1 ''/p'' stale_data)) = 5000"
proof -
  have g: "getGitModifiedFiles e1 ''/p'' = []"
    by (simp add: getGitModifiedFiles_def e1_def)
  have h: "getFilesByHashComparison e1 ''/p'' stale_data =
      ([''/p/a.txt''],
       stale_data\<lparr>fileBaselines :=
         [(''a.txt'', \<lparr>bl_filePath = ''a.txt'', bl_lastModified = 100, bl_fileSize = 5,
                      bl_contentHash = ''hello''\<rparr>)]\<rparr>)"
    by (simp add: getFilesByHashComparison_def hash_step_def stale_data_def e1_def
        hello_file_def initial_data_def resolve_in_def is_absolute_def path_join_def)
  have eq: "getModifiedFiles e1 ''/p'' stale_data =
      (fst (getFilesByHashComparison e1 ''/p'' stale_data),
       (snd (getFilesByHashComparison e1 ''/p'' stale_data))\<lparr>lastScanTime := now e1\<rparr>)"
    using getModifiedFiles_first_nonempty_layer [of e1 "''/p''" stale_data]
    by (simp add: g h Let_def)
  have t: "now e1 = 5000" by (simp add: e1_def)
  show ?thesis
    unfolding eq h t by simp
qed

section \<open>Creating a project snapshot: the kind\<close>

text \<open>
  Claim C7. A call of \<open>createProjectSnapshot\<close> on an initialised manager increments
  \<open>currentSaveNumber\<close>; the snapshot is full exactly when the incremented number minus
  \<open>lastFullSaveNumber\<close> reaches \<open>fullSaveInterval\<close> or the snapshot list is empty (so
  the first snapshot of an empty store is full whatever the interval), and incremental
  otherwise; when it is full, \<open>lastFullSaveNumber\<close> becomes the incremented number, and
  otherwise it stays as it was.
\<close>

theorem createProjectSnapshot_kind:
  assumes init: "cacheDirectory m \<noteq> []"
    and run: "createProjectSnapshot m disk e root prompt = (r, m', disk')"
  shows "currentSaveNumber (data m') = currentSaveNumber (data m) + 1 \<and>
         lastFullSaveNumber (data m') =
           (if currentSaveNumber (data m) + 1 - lastFullSaveNumber (data m)
                 \<ge> fullSaveInterval (data m)
               \<or> snapshots (data m) = []
            then currentSaveNumber (data m) + 1 else lastFullSaveNumber (data m)) \<and>
         (\<forall>snap. r = Success snap \<longrightarrow>
            saveNumber snap = currentSaveNumber (data m) + 1 \<and>
            ps_type snap =
              (if currentSaveNumber (data m) + 1 - lastFullSaveNumber (data m)
                    \<ge> fullSaveInterval (data m)
                  \<or> snapshots (data m) = []
               then full else incremental))"
proof -
  define d0 where
    "d0 = (data m)\<lparr>projectRoot := root, currentSaveNumber := currentSaveNumber (data m) + 1\<rparr>"
  obtain files d2 disk1 where det: "detect_changes e root prompt d0 disk = (files, d2, disk1)"
    by (metis prod_cases3)
  have c: "counters d2 = counters d0"
    using counters_detect [of e root prompt d0 disk] det by simp
  have c0: "currentSaveNumber d2 = currentSaveNumber (data m) + 1"
    "lastFullSaveNumber d2 = lastFullSaveNumber (data m)"
    "fullSaveInterval d2 = fullSaveInterval (data m)"
    "snapshots d2 = snapshots (data m)"
    using c by (simp_all add: counters_def d0_def)
  show ?thesis
    using run init det [unfolded d0_def] c0
    by (auto simp: createProjectSnapshot_def Let_def shouldDoFullSave_def
        cleanupOldSnapshots_def saveData_def
        split: if_splits option.splits prod.splits)
qed

theorem createProjectSnapshot_kind_witness:
  "\<exists>snap m' disk'.
     createProjectSnapshot m1 disk0 (e1\<lparr>now := 9000, fresh_id := ''id2''\<rparr>) ''/p'' ''edit''
       = (Success snap, m', disk') \<and>
     saveNumber snap = 1 \<and> ps_type snap = full \<and> lastFullSaveNumber (data m') = 1"
proof -
  let ?e = "e1\<lparr>now := 9000, fresh_id := ''id2''\<rparr>"
  obtain r m' disk' where run: "createProjectSnapshot m1 disk0 ?e ''/p'' ''edit'' = (r, m', disk')"
    by (metis prod_cases3)
  have "fst (createProjectSnapshot m1 disk0 ?e ''/p'' ''edit'') =
     Success \<lparr>ps_id = ''id2'', timestamp = 9000, saveNumber = 1, ps_type = full,
        changedFiles = [''*''], ps_prompt = ''edit'', totalFiles = 1,
        actualFileCount = Some 1\<rparr>"
    by code_simp
  then obtain snap where r: "r = Success snap" using run by simp
  have init: "cacheDirectory m1 \<noteq> []" by (simp add: m1_def)
  have "lastFullSaveNumber (data m') = 1 \<and> saveNumber snap = 1 \<and> ps_type snap = full"
    using createProjectSnapshot_kind [OF init run] r
    by (simp add: m1_def initial_data_def)
  with run r show ?thesis by blast
qed

section \<open>Restore and the files of the project\<close>
































text \<open>The project tree after that restore.\<close>

lemma restoreProjectSnapshot_clash_tree:
  "fst (snd (restoreProjectSnapshot clash_mgr clash_disk clash_env ''c1''))
     = [(''x/y.txt'', \<lparr>content = ''payload'', mtimeMs = 900\<rparr>),
        (''snapshot_metadata.json'', meta_file)]"
  by code_simp

text \<open>The destructive branch of the manual restore is there, and is never taken: with
  \<open>isFullRestore\<close> the same tree loses the file.\<close>

lemma restoreProjectManually_full_restore_deletes:
  "restoreProjectManually e_restore [] (project e_restore) False = (True, project e_restore) \<and>
   restoreProjectManually e_restore [] (project e_restore) True = (True, [])"
  by code_simp


text \<open>
  Claim C10. \<open>restoreProjectSnapshot\<close> returns the manager (snapshot list, baselines,
  \<open>currentSaveNumber\<close>, \<open>lastFullSaveNumber\<close>) and the store directory (with the
  index document) exactly as it received them, whatever the outcome.
\<close>

theorem restoreProjectSnapshot_keeps_store:
  "restoreProjectSnapshot m disk e sid = (r, t', m', disk') \<Longrightarrow> m' = m \<and> disk' = disk"
  by (auto simp: restoreProjectSnapshot_def split: option.splits if_splits prod.splits bool.splits)

theorem restoreProjectSnapshot_keeps_store_witness:
  "snd (snd (restoreProjectSnapshot chain_mgr chain_disk e_restore ''s3'')) = (chain_mgr, chain_disk)
   \<and> fst (restoreProjectSnapshot chain_mgr chain_disk e_restore ''s3'') = Success snap3"
proof -
  obtain r t' m' disk' where
    run: "restoreProjectSnapshot chain_mgr chain_disk e_restore ''s3'' = (r, t', m', disk')"
    by (metis prod_cases4)
  have "m' = chain_mgr \<and> disk' = chain_disk"
    using restoreProjectSnapshot_keeps_store [OF run] .
  moreover have "fst (restoreProjectSnapshot chain_mgr chain_disk e_restore ''s3'') = Success snap3"
    by code_simp
  ultimately show ?thesis by (simp add: run)
qed


section \<open>Restore planner\<close>


lemma find_key_distinct:
  "distinct (map f xs) \<Longrightarrow> find (\<lambda>x. f x = k) xs = Some s \<longleftrightarrow> s \<in> set xs \<and> f s = k"
  by (induction xs) auto

lemma by_number_iff:
  "distinct (map saveNumber (snapshots d)) \<Longrightarrow>
     by_number d i = Some s \<longleftrightarrow> s \<in> set (snapshots d) \<and> saveNumber s = i"
  unfolding by_number_def by (rule find_key_distinct)

lemma by_number_saveNumber: "by_number d i = Some s \<Longrightarrow> saveNumber s = i \<and> s \<in> set (snapshots d)"
  unfolding by_number_def by (auto simp: find_Some_iff)

lemma scan_sound:
  "scan_for_full d disk js = Some s \<Longrightarrow>
     saveNumber s \<in> set js \<and> by_number d (saveNumber s) = Some s \<and> usable_full_at d disk (saveNumber s)"
proof (induction js)
  case Nil
  then show ?case by simp
next
  case (Cons i rest)
  show ?case
  proof (cases "usable_full_at d disk i")
    case True
    then obtain x where x: "by_number d i = Some x" "ps_type x = full"
        "getSnapshotFileList disk (ps_id x) \<noteq> []"
      by (auto simp: usable_full_at_def split: option.splits)
    then have "s = x" using Cons.prems by simp
    moreover have "saveNumber x = i" using x by_number_saveNumber by blast
    ultimately show ?thesis using x True by simp
  next
    case False
    then have "scan_for_full d disk rest = Some s"
      using Cons.prems by (auto simp: usable_full_at_def split: option.splits if_splits)
    then show ?thesis using Cons.IH by simp
  qed
qed

lemma scan_first:
  "sorted_wrt (>) js \<Longrightarrow> scan_for_full d disk js = Some s \<Longrightarrow>
     \<forall>j \<in> set js. saveNumber s < j \<longrightarrow> \<not> usable_full_at d disk j"
proof (induction js)
  case Nil
  then show ?case by simp
next
  case (Cons i rest)
  show ?case
  proof (cases "usable_full_at d disk i")
    case True
    then obtain x where x: "by_number d i = Some x" "ps_type x = full"
        "getSnapshotFileList disk (ps_id x) \<noteq> []"
      by (auto simp: usable_full_at_def split: option.splits)
    then have "s = x" using Cons.prems by simp
    moreover have "saveNumber x = i" using x by_number_saveNumber by blast
    ultimately show ?thesis using Cons.prems(1) by auto
  next
    case False
    then have r: "scan_for_full d disk rest = Some s"
      using Cons.prems by (auto simp: usable_full_at_def split: option.splits if_splits)
    have "sorted_wrt (>) rest" using Cons.prems(1) by simp
    then show ?thesis using Cons.IH r False by auto
  qed
qed

lemma scan_complete:
  "j \<in> set js \<Longrightarrow> usable_full_at d disk j \<Longrightarrow> scan_for_full d disk js \<noteq> None"
  by (induction js) (auto simp: usable_full_at_def split: option.splits)

lemma chain_step_plain:
  "\<not> usable_full_at d disk i \<Longrightarrow> chain_step d disk i c = c @ inc_at d i"
  by (auto simp: chain_step_def usable_full_at_def inc_at_def split: option.splits)

lemma fold_chain_plain:
  "\<forall>i \<in> set js. \<not> usable_full_at d disk i \<Longrightarrow>
     fold (chain_step d disk) js c = c @ concat (map (inc_at d) js)"
  by (induction js arbitrary: c) (simp_all add: chain_step_plain)

lemma inc_at_numbers:
  "map saveNumber (concat (map (inc_at d) js)) = filter (\<lambda>i. inc_at d i \<noteq> []) js"
proof (induction js)
  case Nil
  then show ?case by simp
next
  case (Cons i rest)
  have "map saveNumber (inc_at d i) = (if inc_at d i \<noteq> [] then [i] else [])"
    using by_number_saveNumber [of d i]
    by (auto simp: inc_at_def split: option.splits)
  then show ?case using Cons.IH by simp
qed

lemma inc_at_mem:
  "s \<in> set (inc_at d i) \<longleftrightarrow> by_number d i = Some s \<and> ps_type s = incremental"
proof (cases "by_number d i")
  case None
  then show ?thesis by (simp add: inc_at_def)
next
  case (Some x)
  show ?thesis
  proof (cases "ps_type x")
    case incremental
    then show ?thesis using Some by (auto simp: inc_at_def)
  next
    case full
    then show ?thesis using Some by (auto simp: inc_at_def)
  qed
qed

lemma inc_at_set:
  assumes "distinct (map saveNumber (snapshots d))"
  shows "set (concat (map (inc_at d) js)) =
         {s \<in> set (snapshots d). ps_type s = incremental \<and> saveNumber s \<in> set js}"
proof (rule set_eqI)
  fix s
  have "s \<in> set (concat (map (inc_at d) js)) \<longleftrightarrow> (\<exists>i \<in> set js. s \<in> set (inc_at d i))"
    by simp
  also have "\<dots> \<longleftrightarrow> (\<exists>i \<in> set js. by_number d i = Some s \<and> ps_type s = incremental)"
    by (simp only: inc_at_mem)
  also have "\<dots> \<longleftrightarrow> (\<exists>i \<in> set js. (s \<in> set (snapshots d) \<and> saveNumber s = i)
                                 \<and> ps_type s = incremental)"
    by (simp only: by_number_iff [OF assms])
  also have "\<dots> \<longleftrightarrow> s \<in> {s \<in> set (snapshots d). ps_type s = incremental \<and> saveNumber s \<in> set js}"
    by blast
  finally show "s \<in> set (concat (map (inc_at d) js)) \<longleftrightarrow>
      s \<in> {s \<in> set (snapshots d). ps_type s = incremental \<and> saveNumber s \<in> set js}" .
qed

lemma sorted_desc_rev_upto: "sorted_wrt (>) (rev [i..j::int])"
proof -
  have "sorted_wrt (<) [i..j]" by (simp add: strict_sorted_iff)
  then show ?thesis by (simp add: sorted_wrt_rev)
qed

text \<open>
  Claim C3, amended. In a store whose save numbers are distinct, let \<open>S\<close> be an
  incremental snapshot and let some full snapshot with a non-empty directory have a save
  number from 1 to below that of \<open>S\<close>. Then the plan for \<open>S\<close> starts with the most
  recent such full snapshot \<open>B\<close>, ends at \<open>S\<close>, has strictly increasing save numbers,
  and holds after \<open>B\<close> exactly the stored incremental snapshots numbered above \<open>B\<close> up
  to \<open>S\<close>; it is contiguous when each of these numbers belongs to an incremental
  snapshot. A round of the second loop that meets a full snapshot with a non-empty
  directory resets the chain to that snapshot.
\<close>

theorem buildRestoreChain_plan:
  assumes dist: "distinct (map saveNumber (snapshots d))"
    and S: "S \<in> set (snapshots d)" "ps_type S = incremental"
    and F: "F \<in> set (snapshots d)" "ps_type F = full"
      "getSnapshotFileList disk (ps_id F) \<noteq> []"
      "1 \<le> saveNumber F" "saveNumber F < saveNumber S"
  shows "\<exists>B rest.
     buildRestoreChain d disk S = Some (B # rest) \<and>
     B \<in> set (snapshots d) \<and> ps_type B = full \<and> getSnapshotFileList disk (ps_id B) \<noteq> [] \<and>
     saveNumber F \<le> saveNumber B \<and> saveNumber B < saveNumber S \<and>
     last (B # rest) = S \<and>
     sorted_wrt (<) (map saveNumber (B # rest)) \<and>
     set rest = {s \<in> set (snapshots d). ps_type s = incremental \<and>
                   saveNumber B < saveNumber s \<and> saveNumber s \<le> saveNumber S} \<and>
     ((\<forall>i. saveNumber B < i \<and> i \<le> saveNumber S \<longrightarrow>
           (\<exists>s \<in> set (snapshots d). saveNumber s = i \<and> ps_type s = incremental))
        \<longrightarrow> map saveNumber (B # rest) = [saveNumber B..saveNumber S]) \<and>
     (\<forall>i c s. by_number d i = Some s \<and> ps_type s = full \<and>
              getSnapshotFileList disk (ps_id s) \<noteq> [] \<longrightarrow> chain_step d disk i c = [s])"
proof -
  let ?t = "saveNumber S"
  let ?js = "rev [1..?t - 1]"
  have bS: "by_number d ?t = Some S" using by_number_iff [OF dist] S by simp
  have bF: "by_number d (saveNumber F) = Some F" using by_number_iff [OF dist] F by simp
  have uF: "usable_full_at d disk (saveNumber F)" using bF F by (simp add: usable_full_at_def)
  have Fin: "saveNumber F \<in> set ?js" using F by simp
  obtain B where B: "scan_for_full d disk ?js = Some B"
    using scan_complete [OF Fin uF] by auto
  have Bs: "saveNumber B \<in> set ?js" "by_number d (saveNumber B) = Some B"
    "usable_full_at d disk (saveNumber B)"
    using scan_sound [OF B] by simp_all
  have Bfirst: "\<forall>j \<in> set ?js. saveNumber B < j \<longrightarrow> \<not> usable_full_at d disk j"
    using scan_first [OF sorted_desc_rev_upto B] .
  let ?k = "saveNumber B"
  have k: "1 \<le> ?k" "?k < ?t" using Bs(1) by simp_all
  have Bprops: "B \<in> set (snapshots d)" "ps_type B = full" "getSnapshotFileList disk (ps_id B) \<noteq> []"
    using Bs(2,3) by_number_saveNumber [of d ?k B] by (simp_all add: usable_full_at_def)
  have FB: "saveNumber F \<le> ?k"
  proof (rule ccontr)
    assume "\<not> saveNumber F \<le> ?k"
    then have "?k < saveNumber F" by simp
    then show False using Bfirst Fin uF by blast
  qed
  have nu: "\<forall>i \<in> set [?k + 1..?t]. \<not> usable_full_at d disk i"
  proof
    fix i assume i: "i \<in> set [?k + 1..?t]"
    show "\<not> usable_full_at d disk i"
    proof (cases "i = ?t")
      case True
      then show ?thesis using bS S by (simp add: usable_full_at_def)
    next
      case False
      then have "i \<in> set ?js" "?k < i" using i k by simp_all
      then show ?thesis using Bfirst by blast
    qed
  qed
  define rest where "rest = concat (map (inc_at d) [?k + 1..?t])"
  have chain: "buildRestoreChain d disk S = Some (B # rest)"
    using S B fold_chain_plain [OF nu, of "[B]"]
    by (simp add: buildRestoreChain_def Let_def rest_def)
  have nums: "map saveNumber rest = filter (\<lambda>i. inc_at d i \<noteq> []) [?k + 1..?t]"
    unfolding rest_def by (rule inc_at_numbers)
  have incS: "inc_at d ?t = [S]" using bS S by (simp add: inc_at_def)
  have "[?k + 1..?t] = [?k + 1..?t - 1] @ [?t]" using k by (simp add: upto_rec2)
  then have "rest = concat (map (inc_at d) [?k + 1..?t - 1]) @ [S]"
    unfolding rest_def using incS by simp
  then have lastS: "last (B # rest) = S" by simp
  have "sorted_wrt (<) [?k + 1..?t]" by (simp add: strict_sorted_iff)
  then have "sorted_wrt (<) (map saveNumber rest)"
    unfolding nums by (rule sorted_wrt_filter)
  moreover have "\<forall>x \<in> set (map saveNumber rest). ?k < x" unfolding nums by auto
  ultimately have sorted: "sorted_wrt (<) (map saveNumber (B # rest))" by simp
  have setrest: "set rest = {s \<in> set (snapshots d). ps_type s = incremental \<and>
                   ?k < saveNumber s \<and> saveNumber s \<le> ?t}"
    unfolding rest_def inc_at_set [OF dist] by auto
  have contiguous: "map saveNumber (B # rest) = [?k..?t]"
    if all: "\<forall>i. ?k < i \<and> i \<le> ?t \<longrightarrow>
                (\<exists>s \<in> set (snapshots d). saveNumber s = i \<and> ps_type s = incremental)"
  proof -
    have "inc_at d i \<noteq> []" if "i \<in> set [?k + 1..?t]" for i
    proof -
      have "?k < i \<and> i \<le> ?t" using that by simp
      then obtain s where "s \<in> set (snapshots d)" "saveNumber s = i" "ps_type s = incremental"
        using all by blast
      then have "by_number d i = Some s" "ps_type s \<noteq> full"
        using by_number_iff [OF dist] by simp_all
      then show ?thesis by (simp add: inc_at_def)
    qed
    then have "filter (\<lambda>i. inc_at d i \<noteq> []) [?k + 1..?t] = [?k + 1..?t]" by simp
    then show ?thesis using nums k by (simp add: upto_rec1 [of ?k ?t])
  qed
  have reset: "\<forall>i c s. by_number d i = Some s \<and> ps_type s = full \<and>
              getSnapshotFileList disk (ps_id s) \<noteq> [] \<longrightarrow> chain_step d disk i c = [s]"
    by (simp add: chain_step_def)
  show ?thesis
  proof (intro exI conjI)
    show "buildRestoreChain d disk S = Some (B # rest)" by (rule chain)
    show "B \<in> set (snapshots d)" "ps_type B = full" "getSnapshotFileList disk (ps_id B) \<noteq> []"
      by (rule Bprops)+
    show "saveNumber F \<le> ?k" by (rule FB)
    show "?k < ?t" by (rule k(2))
    show "last (B # rest) = S" by (rule lastS)
    show "sorted_wrt (<) (map saveNumber (B # rest))" by (rule sorted)
    show "set rest = {s \<in> set (snapshots d). ps_type s = incremental \<and>
                   ?k < saveNumber s \<and> saveNumber s \<le> ?t}" by (rule setrest)
    show "(\<forall>i. ?k < i \<and> i \<le> ?t \<longrightarrow>
           (\<exists>s \<in> set (snapshots d). saveNumber s = i \<and> ps_type s = incremental))
        \<longrightarrow> map saveNumber (B # rest) = [?k..?t]" using contiguous by blast
    show "\<forall>i c s. by_number d i = Some s \<and> ps_type s = full \<and>
              getSnapshotFileList disk (ps_id s) \<noteq> [] \<longrightarrow> chain_step d disk i c = [s]"
      by (rule reset)
  qed
qed

theorem buildRestoreChain_plan_witness:
  "buildRestoreChain chain_data chain_disk snap3 = Some [snap1, snap2, snap3] \<and>
   map saveNumber [snap1, snap2, snap3] = [saveNumber snap1..saveNumber snap3]"
proof -
  have dist: "distinct (map saveNumber (snapshots chain_data))"
    by (simp add: chain_data_def snap1_def snap2_def snap3_def)
  have S: "snap3 \<in> set (snapshots chain_data)" "ps_type snap3 = incremental"
    by (simp_all add: chain_data_def snap3_def)
  have F: "snap1 \<in> set (snapshots chain_data)" "ps_type snap1 = full"
    "getSnapshotFileList chain_disk (ps_id snap1) \<noteq> []"
    "1 \<le> saveNumber snap1" "saveNumber snap1 < saveNumber snap3"
    by (simp_all add: chain_data_def snap1_def snap3_def getSnapshotFileList_def chain_disk_def
        metadata_name_def segments_def)
  have eval: "buildRestoreChain chain_data chain_disk snap3 = Some [snap1, snap2, snap3]"
    by code_simp
  obtain B rest where plan: "buildRestoreChain chain_data chain_disk snap3 = Some (B # rest)"
    and contiguous:
      "(\<forall>i. saveNumber B < i \<and> i \<le> saveNumber snap3 \<longrightarrow>
           (\<exists>s \<in> set (snapshots chain_data). saveNumber s = i \<and> ps_type s = incremental))
        \<longrightarrow> map saveNumber (B # rest) = [saveNumber B..saveNumber snap3]"
    using buildRestoreChain_plan [OF dist S F] by blast
  have B: "B = snap1" "rest = [snap2, snap3]" using plan eval by simp_all
  have held: "\<exists>s \<in> set (snapshots chain_data). saveNumber s = i \<and> ps_type s = incremental"
    if "saveNumber snap1 < i \<and> i \<le> saveNumber snap3" for i
  proof -
    have "i = 2 \<or> i = 3" using that by (simp add: snap1_def snap3_def) arith
    then show ?thesis
      by (auto simp: chain_data_def snap2_def snap3_def)
  qed
  have "map saveNumber [snap1, snap2, snap3] = [saveNumber snap1..saveNumber snap3]"
    using contiguous held unfolding B by blast
  with eval show ?thesis by simp
qed

text \<open>
  The claim as first stated fails in two stores the code produces: after retention has
  reaped the only full snapshot below the target, the degraded search plans a later full
  snapshot alone; after a failed call has left a gap, the plan skips the missing number.
\<close>

theorem buildRestoreChain_plan_counterexample:
  "reaped_inc2 \<in> set (snapshots reaped_data) \<and> ps_type reaped_inc2 = incremental \<and>
   buildRestoreChain reaped_data reaped_disk reaped_inc2 = Some [reaped_full3] \<and>
   \<not> saveNumber reaped_full3 \<le> saveNumber reaped_inc2 \<and> last [reaped_full3] \<noteq> reaped_inc2 \<and>
   gap_inc3 \<in> set (snapshots gap_data) \<and> ps_type gap_inc3 = incremental \<and>
   buildRestoreChain gap_data chain_disk gap_inc3 = Some [snap1, gap_inc3] \<and>
   map saveNumber [snap1, gap_inc3] = [1, 3]"
proof -
  have 1: "buildRestoreChain reaped_data reaped_disk reaped_inc2 = Some [reaped_full3]"
    by code_simp
  have 2: "buildRestoreChain gap_data chain_disk gap_inc3 = Some [snap1, gap_inc3]"
    by code_simp
  show ?thesis
    unfolding 1 2
    by (simp add: reaped_data_def reaped_inc2_def reaped_full3_def gap_data_def gap_inc3_def
        snap1_def snap3_def)
qed

section \<open>File snapshot store: restoring a file\<close>







section \<open>File snapshot store: creating and deleting\<close>

text \<open>
  Claim C1 (fails on the code). \<open>createSnapshot\<close> never calls \<open>validatePath\<close>: for
  \<open>/etc/passwd\<close>, which the guard rejects, it answers with a success, appends the
  snapshot to the session and writes the copy below \<open>snapshots/files\<close>.
\<close>

theorem createSnapshot_skips_path_guard:
  "validatePath (cwd fe1) ''/etc/passwd'' None = Sensitive_path ''/etc/'' \<and>
   fst (createSnapshot fm0 fdisk0 fe1 ''/etc/passwd'' ''x'' None None) =
     Success \<lparr> fs_id = ''snapA'', fs_timestamp = 1700000000000, originalPath = ''/etc/passwd'',
               snapshotPath = ''/p/.CodeRecoder/snapshots/files/snapA/passwd'', fileSize = 10,
               fileHash = ''root:x:0:0'', fs_prompt = ''x'', sessionId = ''sess1'',
               parentSnapshotId = None \<rparr> \<and>
   map (map fs_id \<circ> sess_snapshots)
     (sessions (fm_data (fst (snd (createSnapshot fm0 fdisk0 fe1 ''/etc/passwd'' ''x'' None None)))))
     = [[''snapA'']] \<and>
   map_of (disk_files (snd (snd (createSnapshot fm0 fdisk0 fe1 ''/etc/passwd'' ''x'' None None))))
     ''/p/.CodeRecoder/snapshots/files/snapA/passwd'' = Some ''root:x:0:0''"
  by code_simp

text \<open>
  Claim C6 (fails on the code). For a manager built by the constructor, whose snapshot
  directories are below \<open>snapshots/files\<close>, \<open>deleteSnapshot\<close> removes the index
  entry and clears the session pointer but looks for the directory at
  \<open>snapshots/id\<close>: the stored copy stays on disk.
\<close>

theorem deleteSnapshot_leaves_directory:
  "fst (createSnapshot fm0 fdisk0 fe1 ''/p/a.txt'' ''x'' None None) = Success snapA \<and>
   fst (deleteSnapshot fm_after_create fdisk_after_create fe2 ''snapA'') = Success 0 \<and>
   map (\<lambda>s. (sess_snapshots s, currentSnapshotId s))
     (sessions (fm_data (fst (snd (deleteSnapshot fm_after_create fdisk_after_create fe2 ''snapA'')))))
     = [([], None)] \<and>
   map_of (disk_files (snd (snd (deleteSnapshot fm_after_create fdisk_after_create fe2 ''snapA''))))
     (snapshotPath snapA) = Some ''A'' \<and>
   pathExists (snd (snd (deleteSnapshot fm_after_create fdisk_after_create fe2 ''snapA'')))
     ''/p/.CodeRecoder/snapshots/files/snapA''"
  by code_simp

text \<open>After \<open>updateCacheDirectory\<close> the snapshot directories are where
  \<open>deleteSnapshot\<close> looks, and the directory goes.\<close>

lemma deleteSnapshot_removes_directory_when_rebound:
  "snapshotPath (case fst (createSnapshot fm_rebound fdisk0 fe1 ''/p/a.txt'' ''x'' None None) of
                   Success s \<Rightarrow> s) = ''/p/.CodeRecoder/snapshots/snapA/a.txt'' \<and>
   (case createSnapshot fm_rebound fdisk0 fe1 ''/p/a.txt'' ''x'' None None of
      (r, m, disk) \<Rightarrow>
        \<not> pathExists (snd (snd (deleteSnapshot m disk fe2 ''snapA'')))
            ''/p/.CodeRecoder/snapshots/snapA'')"
  by code_simp

section \<open>Creating a project snapshot: the forced snapshot\<close>

text \<open>
  Claim C5 (fails on the code). With a non-empty history, the interval not reached and no
  change found by the detector or the forced scan, \<open>createProjectSnapshot\<close> increments
  the save number and records \<open>changedFiles = [*]\<close>, but the snapshot is incremental:
  \<open>copyChangedFiles\<close> looks for a file named \<open>*\<close> and the directory gets the metadata
  only, where the full copy of the same project would hold \<open>notes.tmp\<close>.
\<close>

theorem forced_snapshot_is_incremental_copy:
  "fst (detect_changes forced_env ''/p'' ''save''
         ((data forced_mgr)\<lparr>currentSaveNumber := 2\<rparr>) forced_disk) = [''*''] \<and>
   fst (createProjectSnapshot forced_mgr forced_disk forced_env ''/p'' ''save'')
     = Success forced_snapshot \<and>
   currentSaveNumber (data (fst (snd
       (createProjectSnapshot forced_mgr forced_disk forced_env ''/p'' ''save'')))) = 2 \<and>
   map fst (snapshot_dir (snd (snd
       (createProjectSnapshot forced_mgr forced_disk forced_env ''/p'' ''save''))) forced_snapshot)
     = [''snapshot_metadata.json''] \<and>
   map_option (\<lambda>disk. map fst (snapshot_dir disk forced_snapshot))
       (saveSnapshotFiles forced_env (forced_snapshot\<lparr>ps_type := full\<rparr>) forced_disk)
     = Some [''notes.tmp'', ''snapshot_metadata.json'']"
  by code_simp

section \<open>Store histories: the save numbers held\<close>

lemma drop_upto: "drop n [i..j] = [i + int n..j]"
proof (induction n arbitrary: i)
  case 0
  then show ?case by simp
next
  case (Suc n)
  show ?case
  proof (cases "i \<le> j")
    case True
    then have "drop (Suc n) [i..j] = drop n [i + 1..j]" by (simp add: upto_rec1)
    also have "\<dots> = [i + 1 + int n..j]" by (rule Suc.IH)
    finally show ?thesis by (simp add: add.commute add.left_commute)
  next
    case False
    then show ?thesis by simp
  qed
qed

lemma take_rev_upto:
  assumes "int k \<le> j - i + 1"
  shows "take k (rev [i..j]) = rev [j - int k + 1..j]"
proof -
  have len: "length [i..j] = nat (j - i + 1)" by simp
  have "take k (rev [i..j]) = rev (drop (length [i..j] - k) [i..j])"
    by (simp add: take_rev del: length_upto)
  also have "\<dots> = rev [i + int (length [i..j] - k)..j]" by (simp only: drop_upto)
  also have "i + int (length [i..j] - k) = j - int k + 1" using assms by simp
  finally show ?thesis .
qed

lemma run_inv_push:
  assumes inv: "run_inv cur snaps"
    and num: "saveNumber s = cur + 1"
    and newest: "\<forall>a \<in> set snaps. timestamp a < timestamp s"
  shows "run_inv (cur + 1) (snaps @ [s])"
proof -
  have d: "distinct (map saveNumber snaps)"
    and img: "saveNumber ` set snaps = {cur - int (length snaps) + 1..cur}"
    and ord: "\<forall>a \<in> set snaps. \<forall>b \<in> set snaps.
        (timestamp a < timestamp b) = (saveNumber a < saveNumber b)"
    using inv by (simp_all add: run_inv_def)
  have below: "saveNumber a \<le> cur" if "a \<in> set snaps" for a
    using img that by (metis atLeastAtMost_iff imageI)
  have d': "distinct (map saveNumber (snaps @ [s]))"
    using d num below by fastforce
  have img': "saveNumber ` set (snaps @ [s]) = {cur + 1 - int (length (snaps @ [s])) + 1..cur + 1}"
  proof -
    have "saveNumber ` set (snaps @ [s]) = insert (cur + 1) {cur - int (length snaps) + 1..cur}"
      using img num by simp
    also have "\<dots> = {cur - int (length snaps) + 1..cur + 1}" by auto
    finally show ?thesis by simp
  qed
  have ord': "(timestamp a < timestamp b) = (saveNumber a < saveNumber b)"
    if ab: "a \<in> set (snaps @ [s])" "b \<in> set (snaps @ [s])" for a b
  proof -
    consider "a \<in> set snaps" "b \<in> set snaps" | "a \<in> set snaps" "b = s"
      | "a = s" "b \<in> set snaps" | "a = s" "b = s"
      using ab by auto
    then show ?thesis
    proof cases
      case 1
      then show ?thesis using ord by blast
    next
      case 2
      then show ?thesis using newest below [of a] num by simp
    next
      case 3
      have "timestamp b < timestamp s" "saveNumber b \<le> cur" using 3 newest below by auto
      then show ?thesis using 3 num by simp
    next
      case 4
      then show ?thesis by simp
    qed
  qed
  show ?thesis unfolding run_inv_def using d' img' ord' by blast
qed

lemma run_inv_keep:
  assumes inv: "run_inv cur snaps" and k: "k \<le> length snaps"
  shows "run_inv cur (take k (sort_key (\<lambda>x. - timestamp x) snaps))"
proof -
  let ?L = "sort_key (\<lambda>x. - timestamp x) snaps"
  let ?lo = "cur - int (length snaps) + 1"
  have d: "distinct (map saveNumber snaps)"
    and img: "saveNumber ` set snaps = {?lo..cur}"
    and ord: "\<forall>a \<in> set snaps. \<forall>b \<in> set snaps.
        (timestamp a < timestamp b) = (saveNumber a < saveNumber b)"
    using inv by (simp_all add: run_inv_def)
  have setL: "set ?L = set snaps" by simp
  have lenL: "length ?L = length snaps" by simp
  have "card (set (map saveNumber snaps)) = length (map saveNumber snaps)"
    using d by (rule distinct_card)
  then have "card (set (map saveNumber ?L)) = length (map saveNumber ?L)" by simp
  then have dL: "distinct (map saveNumber ?L)" by (rule card_distinct)
  have "sorted (map (\<lambda>x. - timestamp x) ?L)" by (rule sorted_sort_key)
  then have "sorted_wrt (\<lambda>a b. timestamp b \<le> timestamp a) ?L"
    by (simp add: sorted_map)
  then have "sorted_wrt (\<lambda>a b. saveNumber b \<le> saveNumber a) ?L"
  proof (rule sorted_wrt_mono_rel [rotated])
    fix a b assume "a \<in> set ?L" "b \<in> set ?L" "timestamp b \<le> timestamp a"
    then have "\<not> saveNumber a < saveNumber b" using ord setL by (metis not_le)
    then show "saveNumber b \<le> saveNumber a" by simp
  qed
  then have "sorted (rev (map saveNumber ?L))"
    by (simp add: sorted_wrt_rev sorted_wrt_map rev_map [symmetric] del: rev_map)
  moreover have "distinct (rev (map saveNumber ?L))" using dL by simp
  moreover have "set (rev (map saveNumber ?L)) = set [?lo..cur]" using img by simp
  ultimately have "rev (map saveNumber ?L) = [?lo..cur]"
    using sorted_distinct_set_unique [of "rev (map saveNumber ?L)" "[?lo..cur]"] by simp
  then have nums: "map saveNumber ?L = rev [?lo..cur]" by (metis rev_rev_ident)
  have "map saveNumber (take k ?L) = take k (rev [?lo..cur])"
    by (simp only: take_map [symmetric] nums)
  also have "\<dots> = rev [cur - int k + 1..cur]"
    using k by (intro take_rev_upto) simp
  finally have kept: "map saveNumber (take k ?L) = rev [cur - int k + 1..cur]" .
  have lenK: "length (take k ?L) = k" using k by simp
  have d': "distinct (map saveNumber (take k ?L))" unfolding kept by simp
  have "saveNumber ` set (take k ?L) = set (map saveNumber (take k ?L))" by simp
  also have "\<dots> = {cur - int k + 1..cur}" unfolding kept by simp
  finally have img': "saveNumber ` set (take k ?L) = {cur - int (length (take k ?L)) + 1..cur}"
    using lenK by simp
  have sub: "set (take k ?L) \<subseteq> set snaps" using set_take_subset [of k ?L] by simp
  have ord': "\<forall>a \<in> set (take k ?L). \<forall>b \<in> set (take k ?L).
        (timestamp a < timestamp b) = (saveNumber a < saveNumber b)"
    using ord sub by blast
  show ?thesis unfolding run_inv_def using d' img' ord' by blast
qed

lemma create_success_shape:
  assumes run: "createProjectSnapshot m disk e root prompt = (Success s, m', disk')"
  shows "currentSaveNumber (data m') = currentSaveNumber (data m) + 1 \<and>
         maxSnapshots (data m') = maxSnapshots (data m) \<and>
         autoCleanup (data m') = autoCleanup (data m) \<and>
         saveNumber s = currentSaveNumber (data m) + 1 \<and>
         timestamp s = now e \<and>
         snapshots (data m') =
           (if autoCleanup (data m) \<and> maxSnapshots (data m) < length (snapshots (data m)) + 1
            then take (maxSnapshots (data m))
                   (sort_key (\<lambda>x. - timestamp x) (snapshots (data m) @ [s]))
            else snapshots (data m) @ [s])"
proof -
  define d0 where
    "d0 = (data m)\<lparr>projectRoot := root, currentSaveNumber := currentSaveNumber (data m) + 1\<rparr>"
  obtain changed d2 disk1 where det: "detect_changes e root prompt d0 disk = (changed, d2, disk1)"
    by (metis prod_cases3)
  have c: "counters d2 = counters d0"
    using counters_detect [of e root prompt d0 disk] det by simp
  have c0: "currentSaveNumber d2 = currentSaveNumber (data m) + 1"
    "snapshots d2 = snapshots (data m)"
    "maxSnapshots d2 = maxSnapshots (data m)"
    "autoCleanup d2 = autoCleanup (data m)"
    using c by (simp_all add: counters_def d0_def)
  have init: "cacheDirectory m \<noteq> []"
    using run by (auto simp: createProjectSnapshot_def)
  show ?thesis
    using run init det [unfolded d0_def] c0
    by (auto simp: createProjectSnapshot_def Let_def cleanupOldSnapshots_def saveData_def
        split: if_splits option.splits prod.splits)
qed

lemma create_success_inv:
  assumes run: "createProjectSnapshot m disk e root prompt = (Success s, m', disk')"
    and inv: "run_inv (currentSaveNumber (data m)) (snapshots (data m))"
    and newest: "\<forall>a \<in> set (snapshots (data m)). timestamp a < now e"
  shows "run_inv (currentSaveNumber (data m')) (snapshots (data m')) \<and>
         (\<forall>a \<in> set (snapshots (data m')). timestamp a \<le> now e)"
proof -
  let ?snaps = "snapshots (data m)" and ?cur = "currentSaveNumber (data m)"
  have shape: "currentSaveNumber (data m') = ?cur + 1" "saveNumber s = ?cur + 1"
    "timestamp s = now e"
    "snapshots (data m') =
       (if autoCleanup (data m) \<and> maxSnapshots (data m) < length ?snaps + 1
        then take (maxSnapshots (data m)) (sort_key (\<lambda>x. - timestamp x) (?snaps @ [s]))
        else ?snaps @ [s])"
    using create_success_shape [OF run] by simp_all
  have pushed: "run_inv (?cur + 1) (?snaps @ [s])"
    using run_inv_push [OF inv shape(2)] newest shape(3) by simp
  have bound: "\<forall>a \<in> set (?snaps @ [s]). timestamp a \<le> now e"
    using newest shape(3) by auto
  show ?thesis
  proof (cases "autoCleanup (data m) \<and> maxSnapshots (data m) < length ?snaps + 1")
    case True
    let ?kept = "take (maxSnapshots (data m)) (sort_key (\<lambda>x. - timestamp x) (?snaps @ [s]))"
    have k: "maxSnapshots (data m) \<le> length (?snaps @ [s])" using True by simp
    have "run_inv (?cur + 1) ?kept" using run_inv_keep [OF pushed k] .
    moreover have "set ?kept \<subseteq> set (?snaps @ [s])"
      using set_take_subset [of "maxSnapshots (data m)" "sort_key (\<lambda>x. - timestamp x) (?snaps @ [s])"]
      by simp
    ultimately show ?thesis using True shape(1,4) bound by auto
  next
    case False
    then show ?thesis using shape(1,4) pushed bound by auto
  qed
qed

lemma create_all_inv:
  assumes "create_all m0 dk0 calls = (rs, m, disk)"
    and "list_all is_success rs"
    and "sorted_wrt (<) (map call_time calls)"
    and "run_inv (currentSaveNumber (data m0)) (snapshots (data m0))"
    and "\<forall>a \<in> set (snapshots (data m0)). \<forall>c \<in> set calls. timestamp a < call_time c"
    and "autoCleanup (data m0) \<longrightarrow> length (snapshots (data m0)) \<le> maxSnapshots (data m0)"
  shows "run_inv (currentSaveNumber (data m)) (snapshots (data m)) \<and>
         currentSaveNumber (data m) = currentSaveNumber (data m0) + int (length calls) \<and>
         length (snapshots (data m)) =
           (if autoCleanup (data m0)
            then min (length (snapshots (data m0)) + length calls) (maxSnapshots (data m0))
            else length (snapshots (data m0)) + length calls)"
  using assms
proof (induction calls arbitrary: m0 dk0 rs)
  case Nil
  then show ?case by auto
next
  case (Cons c calls)
  obtain e root prompt where c: "c = (e, root, prompt)" by (metis prod_cases3)
  obtain r mb dk1 where step: "createProjectSnapshot m0 dk0 e root prompt = (r, mb, dk1)"
    by (metis prod_cases3)
  obtain rs1 mc dk2 where rest: "create_all mb dk1 calls = (rs1, mc, dk2)"
    by (metis prod_cases3)
  have res: "rs = r # rs1" "m = mc" "disk = dk2"
    using Cons.prems(1) c step rest by simp_all
  have rest': "create_all mb dk1 calls = (rs1, m, disk)" using rest res by simp
  have "is_success r" and ok1: "list_all is_success rs1"
    using Cons.prems(2) res(1) by simp_all
  then obtain s where r: "r = Success s"
    by (cases r) (simp_all add: is_success_def)
  have run: "createProjectSnapshot m0 dk0 e root prompt = (Success s, mb, dk1)"
    using step r by simp
  have t: "call_time c = now e" by (simp add: c call_time_def)
  have newest: "\<forall>a \<in> set (snapshots (data m0)). timestamp a < now e"
    using Cons.prems(5) t by simp
  have shape: "currentSaveNumber (data mb) = currentSaveNumber (data m0) + 1"
    "maxSnapshots (data mb) = maxSnapshots (data m0)"
    "autoCleanup (data mb) = autoCleanup (data m0)"
    "snapshots (data mb) =
       (if autoCleanup (data m0) \<and> maxSnapshots (data m0) < length (snapshots (data m0)) + 1
        then take (maxSnapshots (data m0))
               (sort_key (\<lambda>x. - timestamp x) (snapshots (data m0) @ [s]))
        else snapshots (data m0) @ [s])"
    using create_success_shape [OF run] by simp_all
  have len1: "length (snapshots (data mb)) =
       (if autoCleanup (data m0) \<and> maxSnapshots (data m0) < length (snapshots (data m0)) + 1
        then maxSnapshots (data m0) else length (snapshots (data m0)) + 1)"
    unfolding shape(4) by simp
  have inv1: "run_inv (currentSaveNumber (data mb)) (snapshots (data mb))"
    and bound1: "\<forall>a \<in> set (snapshots (data mb)). timestamp a \<le> now e"
    using create_success_inv [OF run Cons.prems(4) newest] by simp_all
  have later: "\<forall>c' \<in> set calls. now e < call_time c'"
    using Cons.prems(3) t by simp
  have sorted1: "sorted_wrt (<) (map call_time calls)" using Cons.prems(3) by simp
  have newest1: "\<forall>a \<in> set (snapshots (data mb)). \<forall>c' \<in> set calls. timestamp a < call_time c'"
    using bound1 later by fastforce
  have cap1: "autoCleanup (data mb) \<longrightarrow> length (snapshots (data mb)) \<le> maxSnapshots (data mb)"
    using len1 shape(2,3) by auto
  have IH: "run_inv (currentSaveNumber (data m)) (snapshots (data m)) \<and>
         currentSaveNumber (data m) = currentSaveNumber (data mb) + int (length calls) \<and>
         length (snapshots (data m)) =
           (if autoCleanup (data mb)
            then min (length (snapshots (data mb)) + length calls) (maxSnapshots (data mb))
            else length (snapshots (data mb)) + length calls)"
    using Cons.IH [OF rest' ok1 sorted1 inv1 newest1 cap1] .
  have cap0: "autoCleanup (data m0) \<longrightarrow> length (snapshots (data m0)) \<le> maxSnapshots (data m0)"
    using Cons.prems(6) .
  show ?case
    using IH shape(1,2,3) len1 cap0 by (auto simp: min_def)
qed

text \<open>
  Claim C4, amended. From a fresh store, after any sequence of \<open>createProjectSnapshot\<close>
  calls that all succeed, at strictly increasing clock readings, with the retention
  cleanup they run: \<open>currentSaveNumber\<close> is the number of calls; the save numbers of
  the snapshots held are distinct and are the contiguous run of as many numbers ending at
  \<open>currentSaveNumber\<close> (so \<open>1..currentSaveNumber\<close> as long as retention has reaped
  nothing); they increase strictly with the timestamps; and the store holds
  \<open>min (calls, maxSnapshots)\<close> snapshots under \<open>autoCleanup\<close>, all of them otherwise.
\<close>

theorem save_numbers_form_a_run:
  assumes run: "create_all m0 dk0 calls = (rs, m, disk)"
    and fresh: "snapshots (data m0) = []" "currentSaveNumber (data m0) = 0"
    and ok: "list_all is_success rs"
    and clock: "sorted_wrt (<) (map call_time calls)"
  shows "currentSaveNumber (data m) = int (length calls) \<and>
         distinct (map saveNumber (snapshots (data m))) \<and>
         saveNumber ` set (snapshots (data m)) =
           {currentSaveNumber (data m) - int (length (snapshots (data m))) + 1
            ..currentSaveNumber (data m)} \<and>
         (\<forall>a \<in> set (snapshots (data m)). \<forall>b \<in> set (snapshots (data m)).
            (timestamp a < timestamp b) = (saveNumber a < saveNumber b)) \<and>
         length (snapshots (data m)) =
           (if autoCleanup (data m0) then min (length calls) (maxSnapshots (data m0))
            else length calls)"
proof -
  have inv0: "run_inv (currentSaveNumber (data m0)) (snapshots (data m0))"
    using fresh by (simp add: run_inv_def)
  have newest0: "\<forall>a \<in> set (snapshots (data m0)). \<forall>c \<in> set calls. timestamp a < call_time c"
    using fresh by simp
  have cap0: "autoCleanup (data m0) \<longrightarrow> length (snapshots (data m0)) \<le> maxSnapshots (data m0)"
    using fresh by simp
  have "run_inv (currentSaveNumber (data m)) (snapshots (data m)) \<and>
         currentSaveNumber (data m) = currentSaveNumber (data m0) + int (length calls) \<and>
         length (snapshots (data m)) =
           (if autoCleanup (data m0)
            then min (length (snapshots (data m0)) + length calls) (maxSnapshots (data m0))
            else length (snapshots (data m0)) + length calls)"
    using create_all_inv [OF run ok clock inv0 newest0 cap0] .
  then show ?thesis using fresh by (simp add: run_inv_def)
qed

theorem save_numbers_form_a_run_witness:
  "saveNumber ` set (snapshots (data (fst (snd (create_all small_mgr disk0 three_calls)))))
     = {2..3} \<and>
   currentSaveNumber (data (fst (snd (create_all small_mgr disk0 three_calls)))) = 3"
proof -
  obtain rs m disk where run: "create_all small_mgr disk0 three_calls = (rs, m, disk)"
    by (metis prod_cases3)
  have "list_all is_success (fst (create_all small_mgr disk0 three_calls))"
    by code_simp
  then have ok: "list_all is_success rs" using run by simp
  have fresh: "snapshots (data small_mgr) = []" "currentSaveNumber (data small_mgr) = 0"
    by (simp_all add: small_mgr_def initial_data_def)
  have clock: "sorted_wrt (<) (map call_time three_calls)"
    by (simp add: three_calls_def call_time_def)
  have settings: "autoCleanup (data small_mgr)" "maxSnapshots (data small_mgr) = 2"
    "length three_calls = 3"
    by (simp_all add: small_mgr_def initial_data_def three_calls_def)
  have "currentSaveNumber (data m) = 3 \<and>
        saveNumber ` set (snapshots (data m)) = {2..3}"
    using save_numbers_form_a_run [OF run fresh ok clock] settings by simp
  then show ?thesis using run by simp
qed

text \<open>
  The claim as first stated fails twice: with \<open>maxSnapshots = 2\<close> three successful
  calls leave the save numbers 3 and 2 (1 is reaped); and a call that fails after the
  counter was incremented leaves the gap 1, 3.
\<close>

theorem save_numbers_from_one_counterexample:
  "list_all is_success (fst (create_all small_mgr disk0 three_calls)) \<and>
   map saveNumber (snapshots (data (fst (snd (create_all small_mgr disk0 three_calls))))) = [3, 2] \<and>
   currentSaveNumber (data (fst (snd (create_all small_mgr disk0 three_calls)))) = 3 \<and>
   map is_success (fst (create_all m1 disk0 failing_calls)) = [True, False, True] \<and>
   map saveNumber (snapshots (data (fst (snd (create_all m1 disk0 failing_calls))))) = [1, 3] \<and>
   currentSaveNumber (data (fst (snd (create_all m1 disk0 failing_calls)))) = 3"
  by code_simp

end
